theory Spec2Isabelle
  imports Complex_Main
begin

section \<open>Python text\<close>

text \<open>
  The program is \<^verbatim>\<open>generateWord.py\<close>: a FastAPI service that validates the numeric
  fields of a submitted survey form and renders the form as a python-docx document.

  A Python \<^verbatim>\<open>str\<close> is modelled as a \<^typ>\<open>string\<close>, one \<^typ>\<open>char\<close> per code point,
  so the model covers text whose code points are below 256. A form value is a
  \<^verbatim>\<open>str\<close> or \<^verbatim>\<open>None\<close> (\<^verbatim>\<open>str = Form(None)\<close>), that is a \<^typ>\<open>string option\<close>;
  \<^verbatim>\<open>str(value)\<close> of a \<^verbatim>\<open>str\<close> is the value itself.
\<close>

text \<open>
  \<^verbatim>\<open>str.isspace\<close> on one code point below 256: the ASCII controls TAB, LF, VT, FF, CR,
  FS, GS, RS, US, the space, NEL (0x85) and the no-break space (0xA0).
\<close>

definition isspace :: "char \<Rightarrow> bool" where
  "isspace c \<longleftrightarrow>
     c \<in> set [CHR 0x09, CHR 0x0A, CHR 0x0B, CHR 0x0C, CHR 0x0D,
               CHR 0x1C, CHR 0x1D, CHR 0x1E, CHR 0x1F, CHR 0x20, CHR 0x85, CHR 0xA0]"

text \<open>\<^verbatim>\<open>s.strip()\<close>: leading and trailing whitespace removed.\<close>

definition strip :: "string \<Rightarrow> string" where
  "strip s = rev (dropWhile isspace (rev (dropWhile isspace s)))"

text \<open>The decimal digits below code point 256 are the ASCII digits.\<close>

definition isdigit :: "char \<Rightarrow> bool" where
  "isdigit c \<longleftrightarrow> c \<in> set ''0123456789''"

text \<open>
  The \<^verbatim>\<open>digitpart\<close> of Python's numeric grammar: digits with single underscores
  allowed between two digits, \<^verbatim>\<open>digit (["_"] digit)*\<close>.
\<close>

fun digitpart :: "string \<Rightarrow> bool" where
  "digitpart [] = False"
| "digitpart [c] = isdigit c"
| "digitpart (c # d # cs) =
     (isdigit c \<and> (if d = CHR ''_'' then digitpart cs else digitpart (d # cs)))"

text \<open>An optional sign \<^verbatim>\<open>+\<close> or \<^verbatim>\<open>-\<close> at the front is dropped.\<close>

definition drop_sign :: "string \<Rightarrow> string" where
  "drop_sign s =
     (case s of
        [] \<Rightarrow> []
      | c # cs \<Rightarrow> if c = CHR ''+'' \<or> c = CHR ''-'' then cs else s)"

datatype exn = ValueError

text \<open>
  CPython refuses a decimal string of more than \<^verbatim>\<open>sys.int_info.default_max_str_digits\<close>
  digit characters (signs and underscores are not counted).
\<close>

definition int_max_str_digits :: nat where
  "int_max_str_digits = 4300"

text \<open>
  \<^verbatim>\<open>int(s)\<close> for a string in base 10: surrounding whitespace is ignored, then an
  optional sign and a \<^verbatim>\<open>digitpart\<close>; anything else raises \<^verbatim>\<open>ValueError\<close>. The only
  caller passes text that it has trimmed already and discards the number, so the model
  keeps the outcome of the call.
\<close>

definition py_int :: "string \<Rightarrow> exn + unit" where
  "py_int s =
     (let d = drop_sign (strip s)
      in if digitpart d \<and> length (filter isdigit d) \<le> int_max_str_digits
         then Inr () else Inl ValueError)"

text \<open>ASCII lower case, as \<^verbatim>\<open>float\<close> compares the spellings of infinity and nan.\<close>

definition ascii_lower :: "char \<Rightarrow> char" where
  "ascii_lower c =
     (case map_of (zip ''ABCDEFGHIJKLMNOPQRSTUVWXYZ'' ''abcdefghijklmnopqrstuvwxyz'') c of
        None \<Rightarrow> c
      | Some l \<Rightarrow> l)"

text \<open>\<^verbatim>\<open>number ::= [digitpart] "." digitpart | digitpart ["."]\<close>\<close>

definition number :: "string \<Rightarrow> bool" where
  "number m =
     (let ip = takeWhile (\<lambda>c. c \<noteq> CHR ''.'') m;
          rest = dropWhile (\<lambda>c. c \<noteq> CHR ''.'') m
      in case rest of
           [] \<Rightarrow> digitpart ip
         | _ # fp \<Rightarrow> (ip = [] \<and> digitpart fp) \<or> (digitpart ip \<and> (fp = [] \<or> digitpart fp)))"

text \<open>\<^verbatim>\<open>floatnumber ::= number [("e" | "E") [sign] digitpart]\<close>\<close>

definition floatnumber :: "string \<Rightarrow> bool" where
  "floatnumber t =
     (let m = takeWhile (\<lambda>c. c \<noteq> CHR ''e'' \<and> c \<noteq> CHR ''E'') t;
          rest = dropWhile (\<lambda>c. c \<noteq> CHR ''e'' \<and> c \<noteq> CHR ''E'') t
      in case rest of
           [] \<Rightarrow> number m
         | _ # ex \<Rightarrow> number m \<and> digitpart (drop_sign ex))"

text \<open>
  \<^verbatim>\<open>float(s)\<close> for a string: surrounding whitespace is ignored, then an optional sign
  and a \<^verbatim>\<open>floatnumber\<close>, \<^verbatim>\<open>inf\<close>, \<^verbatim>\<open>infinity\<close> or \<^verbatim>\<open>nan\<close> in any letter case; anything
  else raises \<^verbatim>\<open>ValueError\<close>. A number out of the range of a double becomes an
  infinity, it does not raise.
\<close>

definition py_float :: "string \<Rightarrow> exn + unit" where
  "py_float s =
     (let t = drop_sign (strip s)
      in if floatnumber t \<or> map ascii_lower t \<in> set [''inf'', ''infinity'', ''nan'']
         then Inr () else Inl ValueError)"

section \<open>Formatting helpers\<close>

text \<open>
  \<^verbatim>\<open>def format_input_text(value, placeholder_length=6)\<close>: the placeholder is
  \<^verbatim>\<open>"_" * placeholder_length\<close>, which is empty for a length below one.
\<close>

definition format_input_text :: "string option \<Rightarrow> int \<Rightarrow> string" where
  "format_input_text v placeholder_length =
     (case v of
        None \<Rightarrow> replicate (nat placeholder_length) (CHR ''_'')
      | Some s \<Rightarrow>
          if strip s = [] then replicate (nat placeholder_length) (CHR ''_'') else s)"

text \<open>The default of \<^verbatim>\<open>placeholder_length\<close>, used by a call with one argument.\<close>

definition default_placeholder_length :: int where
  "default_placeholder_length = 6"

definition format_checkbox_as_X :: "string option \<Rightarrow> string" where
  "format_checkbox_as_X v =
     (case v of
        None \<Rightarrow> ''_''
      | Some s \<Rightarrow> if strip s = [] then ''_'' else ''X'')"

section \<open>The numeric validator\<close>

text \<open>An error dict \<^verbatim>\<open>{"field": ..., "msg": ...}\<close>.\<close>

record error_entry =
  field :: string
  msg :: string

text \<open>
  The form is a dict read with \<^verbatim>\<open>form.get\<close>, which gives \<^verbatim>\<open>None\<close> for a missing key
  as for a key bound to \<^verbatim>\<open>None\<close>.
\<close>

type_synonym form = "string \<Rightarrow> string option"

text \<open>\<^verbatim>\<open>f"Expected {'integer' if is_int else 'number'} but got '{s}'"\<close>\<close>

definition expected_msg :: "bool \<Rightarrow> string \<Rightarrow> string" where
  "expected_msg is_int s =
     ''Expected '' @ (if is_int then ''integer'' else ''number'') @ '' but got ''
       @ [CHR 0x27] @ s @ [CHR 0x27]"

text \<open>
  One turn of the loop over the rules: \<^verbatim>\<open>continue\<close> on a missing or blank value,
  otherwise \<^verbatim>\<open>int(s)\<close> or \<^verbatim>\<open>float(s)\<close> under \<^verbatim>\<open>try\<close>, and the error dict appended to
  \<^verbatim>\<open>errors\<close> in the \<^verbatim>\<open>except Exception\<close> branch.
\<close>

fun validate_step :: "form \<Rightarrow> error_entry list \<Rightarrow> string \<times> bool \<Rightarrow> error_entry list" where
  "validate_step form errors (fld, is_int) =
     (case form fld of
        None \<Rightarrow> errors
      | Some val \<Rightarrow>
          if strip val = [] then errors
          else
            let s = strip val
            in case (if is_int then py_int s else py_float s) of
                 Inr _ \<Rightarrow> errors
               | Inl _ \<Rightarrow> errors @ [\<lparr>field = fld, msg = expected_msg is_int s\<rparr>])"

fun validate_loop :: "form \<Rightarrow> (string \<times> bool) list \<Rightarrow> error_entry list \<Rightarrow> error_entry list" where
  "validate_loop form [] errors = errors"
| "validate_loop form (rule # rules) errors =
     validate_loop form rules (validate_step form errors rule)"

definition validate_numeric_fields :: "form \<Rightarrow> (string \<times> bool) list \<Rightarrow> error_entry list" where
  "validate_numeric_fields form rules = validate_loop form rules []"

text \<open>
  What it means for a rule to fail, in the words of the specification: the field is
  present, not blank after trimming, and its trimmed text does not parse under the
  declared kind.
\<close>

definition parses :: "bool \<Rightarrow> string \<Rightarrow> bool" where
  "parses is_int s \<longleftrightarrow> (if is_int then py_int s = Inr () else py_float s = Inr ())"

definition blank :: "form \<Rightarrow> string \<Rightarrow> bool" where
  "blank form fld \<longleftrightarrow> (case form fld of None \<Rightarrow> True | Some v \<Rightarrow> strip v = [])"

definition rule_fails :: "form \<Rightarrow> string \<times> bool \<Rightarrow> bool" where
  "rule_fails form rule \<longleftrightarrow>
     \<not> blank form (fst rule) \<and> \<not> parses (snd rule) (strip (the (form (fst rule))))"

definition rule_error :: "form \<Rightarrow> string \<times> bool \<Rightarrow> error_entry" where
  "rule_error form rule =
     \<lparr>field = fst rule, msg = expected_msg (snd rule) (strip (the (form (fst rule))))\<rparr>"

text \<open>The rule table of the full-section endpoint, \<^verbatim>\<open>(field_name, is_integer)\<close>.\<close>

definition numeric_rules :: "(string \<times> bool) list" where
  "numeric_rules =
     [(''latitude_derajat'', False),
      (''latitude_menit'', False),
      (''latitude_detik'', False),
      (''longitude_derajat'', False),
      (''longitude_menit'', False),
      (''longitude_detik'', False),
      (''elevasi_lahan'', False),
      (''kedalaman_air_tanah'', False),
      (''genangan'', False),
      (''banjir_lama_hari'', True),
      (''banjir_ketinggian_air'', False),
      (''tinggi_muka_air_saluran'', False),
      (''kualitas_air_tanah_ph'', False),
      (''kualitas_air_saluran_ph'', False),
      (''kualitas_air_tanah_ec'', False),
      (''kualitas_air_saluran_ec'', False),
      (''kualitas_air_tanah_tds'', False),
      (''kualitas_air_saluran_tds'', False),
      (''substratum_tanah_liat_ph'', False),
      (''substratum_tanah_liat_ec'', False),
      (''ketebalan_gambut_cm'', False),
      (''kondisi_tanaman_subsiden_cm'', False),
      (''hujan_lama_kejadian_jam'', False),
      (''porositas_bobot_isi'', False),
      (''kelengasan_kadar_air'', False),
      (''c_organik'', False)]"

section \<open>Documents\<close>

text \<open>
  The part of python-docx the program uses. A run holds text, the font that
  \<^verbatim>\<open>set_run_style\<close> gives it, and possibly an inline picture; a paragraph holds an
  alignment and runs; a table cell holds paragraphs, always at least one (python-docx
  creates every cell with an empty paragraph, and \<^verbatim>\<open>cell.paragraphs[0]\<close> relies on
  it). Column widths, autofit and vertical alignment are layout attributes no
  operation reads; they are left out.
\<close>

record font =
  font_name :: string
  font_size :: nat
  font_bold :: bool
  font_italic :: bool

text \<open>An image source is \<^verbatim>\<open>bytes\<close> (the content) or a \<^verbatim>\<open>str\<close> (a file system path).\<close>

datatype source = Bytes string | Path string

record picture =
  pic_source :: source
  pic_width_inches :: real

record run =
  run_text :: string
  run_font :: "font option"
  run_picture :: "picture option"

datatype wd_align = LEFT | CENTER

record para =
  alignment :: "wd_align option"
  runs :: "run list"

datatype cell = Cell para "para list"

fun paragraphs :: "cell \<Rightarrow> para list" where
  "paragraphs (Cell p ps) = p # ps"

definition new_paragraph :: para where
  "new_paragraph = \<lparr>alignment = None, runs = []\<rparr>"

definition new_cell :: cell where
  "new_cell = Cell new_paragraph []"

text \<open>\<^verbatim>\<open>paragraph.clear()\<close> removes the content and keeps the paragraph formatting.\<close>

definition clear :: "para \<Rightarrow> para" where
  "clear p = p\<lparr>runs := []\<rparr>"

definition new_run :: "string \<Rightarrow> run" where
  "new_run s = \<lparr>run_text = s, run_font = None, run_picture = None\<rparr>"

text \<open>
  \<^verbatim>\<open>def set_run_style(run, name="Cambria", size_pt=11, bold=False, italic=False)\<close>;
  the defaults are written out at each call.
\<close>

definition set_run_style :: "run \<Rightarrow> string \<Rightarrow> nat \<Rightarrow> bool \<Rightarrow> bool \<Rightarrow> run" where
  "set_run_style r nm size_pt b i =
     r\<lparr>run_font := Some \<lparr>font_name = nm, font_size = size_pt, font_bold = b, font_italic = i\<rparr>\<rparr>"

text \<open>\<^verbatim>\<open>run = p.add_run(s); set_run_style(run, ...)\<close>, the pair of statements at every use.\<close>

definition add_styled_run :: "para \<Rightarrow> string \<Rightarrow> nat \<Rightarrow> bool \<Rightarrow> bool \<Rightarrow> para" where
  "add_styled_run p s size_pt b i =
     p\<lparr>runs := runs p @ [set_run_style (new_run s) ''Cambria'' size_pt b i]\<rparr>"

text \<open>
  The text of a paragraph is the text of its runs, and the text in a cell is the text of
  its paragraphs in order. (python-docx's \<^verbatim>\<open>cell.text\<close> puts a newline between two
  paragraphs in addition; a paragraph break is not counted as text here, and the two
  agree on a cell of one paragraph, as every cell that the program creates is.)
\<close>

definition paragraph_text :: "para \<Rightarrow> string" where
  "paragraph_text p = concat (map run_text (runs p))"

definition cell_text :: "cell \<Rightarrow> string" where
  "cell_text c = concat (map paragraph_text (paragraphs c))"

definition cell_pictures :: "cell \<Rightarrow> picture list" where
  "cell_pictures c = List.map_filter run_picture (concat (map runs (paragraphs c)))"

section \<open>The image inserter\<close>

text \<open>\<^verbatim>\<open>not image_bytes_or_path\<close>: \<^verbatim>\<open>None\<close>, \<^verbatim>\<open>b""\<close> and \<^verbatim>\<open>""\<close> are falsy.\<close>

fun falsy :: "source option \<Rightarrow> bool" where
  "falsy None = True"
| "falsy (Some (Bytes b)) = (b = [])"
| "falsy (Some (Path s)) = (s = [])"

datatype image_exn = UnrecognizedImageError | FileNotFoundError | OtherException

text \<open>
  \<^verbatim>\<open>_insert_image_in_cell(cell, image_bytes_or_path, max_width_inches=2.8)\<close>. The image
  library is a parameter: \<^term>\<open>add_picture src\<close> is the exception that
  \<^verbatim>\<open>run.add_picture\<close> raises on the source, if any. Every paragraph of the cell is
  cleared and the first one centred. In the \<^verbatim>\<open>try\<close> block \<^verbatim>\<open>p.add_run()\<close> has added
  its empty run before \<^verbatim>\<open>add_picture\<close> can raise, and \<^verbatim>\<open>except Exception\<close> adds the
  error caption after it.
\<close>

fun insert_image_in_cell ::
  "(source \<Rightarrow> image_exn option) \<Rightarrow> cell \<Rightarrow> source option \<Rightarrow> real \<Rightarrow> cell" where
  "insert_image_in_cell add_picture (Cell p0 ps) image_bytes_or_path max_width_inches =
     (let rest = map clear ps;
          p = (clear p0)\<lparr>alignment := Some CENTER\<rparr>
      in if falsy image_bytes_or_path then
           Cell (add_styled_run p ''(no image)'' 10 False True) rest
         else
           let src = the image_bytes_or_path;
               arg = (case src of Bytes b \<Rightarrow> Bytes b | Path s \<Rightarrow> Path s);
               p1 = p\<lparr>runs := runs p @ [new_run []]\<rparr>
           in case add_picture arg of
                None \<Rightarrow>
                  Cell (p\<lparr>runs := runs p @
                          [(new_run [])\<lparr>run_picture :=
                             Some \<lparr>pic_source = arg, pic_width_inches = max_width_inches\<rparr>\<rparr>]\<rparr>)
                       rest
              | Some e \<Rightarrow> Cell (add_styled_run p1 ''(error inserting image)'' 9 False True) rest)"

section \<open>Document blocks and the photo builders\<close>

text \<open>
  A document is the list of the blocks appended to it: paragraphs, tables (rows of
  cells; a row of merged cells is one cell) and the blocks of the form sections.
\<close>

datatype block =
    Par para
  | Table "cell list list"
  | Section string "(string \<times> string option) list"

type_synonym document = "block list"

text \<open>The photo dict, read with \<^verbatim>\<open>images.get\<close>.\<close>

type_synonym images = "string \<Rightarrow> source option"

text \<open>A cell whose first paragraph is aligned and holds one styled run.\<close>

definition caption_cell :: "wd_align \<Rightarrow> string \<Rightarrow> nat \<Rightarrow> bool \<Rightarrow> cell" where
  "caption_cell a s size_pt b =
     Cell (add_styled_run (new_paragraph\<lparr>alignment := Some a\<rparr>) s size_pt b False) []"

definition caption_par :: "string \<Rightarrow> block" where
  "caption_par s = Par (add_styled_run (new_paragraph\<lparr>alignment := Some LEFT\<rparr>) s 11 True False)"

text \<open>A table row of image cells, one \<^verbatim>\<open>_insert_image_in_cell\<close> call per key.\<close>

definition image_row ::
  "(source \<Rightarrow> image_exn option) \<Rightarrow> images \<Rightarrow> real \<Rightarrow> string list \<Rightarrow> cell list" where
  "image_row add_picture imgs w keys =
     map (\<lambda>k. insert_image_in_cell add_picture new_cell (imgs k) w) keys"

definition add_foto_lapangan_section ::
  "(source \<Rightarrow> image_exn option) \<Rightarrow> document \<Rightarrow> images \<Rightarrow> real \<Rightarrow> document" where
  "add_foto_lapangan_section add_picture doc imgs max_image_width_inches =
     (let hdr = Cell (add_styled_run (new_paragraph\<lparr>alignment := Some CENTER\<rparr>)
                        (''B.'' @ [CHR 0x09] @ ''FOTO  LAPANGAN'') 12 True False)
                     [add_styled_run (new_paragraph\<lparr>alignment := Some CENTER\<rparr>)
                        ''Seluruh hasil foto yang diambil harus jelas dan tidak membelakangi matahari''
                        9 False True];
          img = image_row add_picture imgs max_image_width_inches
      in doc @
         [Table
           [[hdr],
            [caption_cell LEFT ''1.  Air tanah, genangan atau banjir'' 11 True],
            img [''foto_air_tanah_genangan_1'', ''foto_air_tanah_genangan_2''],
            [caption_cell LEFT ''2.  Tutupan lahan, penggunaan lahan dan kondisinya'' 11 True],
            img [''foto_tutupan_lahan_1'', ''foto_tutupan_lahan_2''],
            [caption_cell LEFT ''3.  Keberadaan flora dan fauna yang dilindungi'' 11 True],
            img [''foto_flora_fauna_1'', ''foto_flora_fauna_2''],
            [caption_cell LEFT ''4.  Kondisi drainase alami dan drainase buatan'' 11 True],
            [caption_cell CENTER ''Drainase alami'' 11 True,
             caption_cell CENTER ''Drainase buatan'' 11 True],
            img [''foto_drainase_alami'', ''foto_drainase_buatan'']]])"

text \<open>\<^verbatim>\<open>[f"foto_tambahan_{i}" for i in range(1, 9)]\<close>\<close>

definition tambahan_keys :: "string list" where
  "tambahan_keys = map (\<lambda>d. ''foto_tambahan_'' @ [d]) ''12345678''"

text \<open>\<^verbatim>\<open>[keys[i:i+2] for i in range(0, len(keys), 2)]\<close>\<close>

fun pair_iter :: "'a list \<Rightarrow> 'a list list" where
  "pair_iter [] = []"
| "pair_iter [x] = [[x]]"
| "pair_iter (x # y # xs) = [x, y] # pair_iter xs"

text \<open>
  One turn of the loop over the pairs of section 12: a table of two image cells, the
  right one from \<^verbatim>\<open>None\<close> when the pair has no second key, and an empty paragraph.
  A slice of \<^verbatim>\<open>pair_iter\<close> is never empty, so the first equation is never used.
\<close>

fun tambahan_blocks ::
  "(source \<Rightarrow> image_exn option) \<Rightarrow> images \<Rightarrow> real \<Rightarrow> string list \<Rightarrow> block list" where
  "tambahan_blocks add_picture imgs w [] = []"
| "tambahan_blocks add_picture imgs w (left_key # others) =
     (let right_key = (case others of [] \<Rightarrow> None | k # _ \<Rightarrow> Some k);
          right = (case right_key of
                     None \<Rightarrow> None
                   | Some k \<Rightarrow> if k \<noteq> [] then imgs k else None)
      in [Table [[insert_image_in_cell add_picture new_cell (imgs left_key) w,
                  insert_image_in_cell add_picture new_cell right w]],
          Par new_paragraph])"

definition add_additional_photo_sections ::
  "(source \<Rightarrow> image_exn option) \<Rightarrow> document \<Rightarrow> images \<Rightarrow> real \<Rightarrow> document" where
  "add_additional_photo_sections add_picture doc imgs max_image_width_inches =
     (let img = image_row add_picture imgs max_image_width_inches
      in doc @
         [caption_par ''5.  Kualitas Air/Kondisi Air Kanal'',
          Table [map (\<lambda>lbl. caption_cell CENTER lbl 11 True) [''EC'', ''TDS'', ''pH''],
                 img [''foto_kualitas_air_ec'', ''foto_kualitas_air_tds'', ''foto_kualitas_air_ph'']],
          Par new_paragraph,
          caption_par
            ''6.  Pengukuran Tinggi Muka Air Tanah (TMAT) pada lubang bor titik pengamatan'',
          Table [img [''foto_tmat_1'', ''foto_tmat_2'']],
          Par new_paragraph,
          caption_par ''7.  Ketebalan gambut'',
          Table [img [''foto_ketebalan_gambut_1'', ''foto_ketebalan_gambut_2'']],
          Par new_paragraph,
          caption_par ''8.  Karakteristik substratum dibawah lapisan gambut'',
          Table [[caption_cell CENTER ''EC'' 11 True, caption_cell CENTER ''pH'' 11 True],
                 img [''foto_substratum_ec'', ''foto_substratum_ph'']],
          Par new_paragraph,
          caption_par
            ''9.  Perkembangan kondisi atau tingkat kerusakan lahan gambut (fungsi lindung/fungsi budidaya)'',
          Table [img [''foto_kerusakan_lahan_gambut_1'', ''foto_kerusakan_lahan_gambut_2'']],
          Par new_paragraph,
          caption_par ''10.  Karakteristik tanah dan kedalaman lapisan pirit'',
          Table [img [''foto_karakteristik_tanah_pirit_1'', ''foto_karakteristik_tanah_pirit_2'']],
          Par new_paragraph,
          caption_par ''11.  Porositas dan Kelengasan'',
          Table [img [''foto_porositas_kelengasan_1'', ''foto_porositas_kelengasan_2'']],
          Par new_paragraph,
          caption_par ''12.  Foto Tambahan'']
         @ concat (map (tambahan_blocks add_picture imgs max_image_width_inches)
                     (pair_iter tambahan_keys)))"

section \<open>The section builders\<close>

text \<open>
  Modelled from the spec: the eighteen section builders \<^verbatim>\<open>add_formulir_tallysheet\<close>,
  \<^verbatim>\<open>add_elevasi_lahan_row\<close>, ..., \<^verbatim>\<open>add_sketsa_lokasi_row\<close> are named by the placeholder
  comment of the source and called by both endpoints, but their bodies are missing.
  The specification says of them: each builder is a pure append operation that, given
  the document and a fixed set of named optional inputs, appends one fixed-shape block;
  no section builder can fail. The block keeps the builder's name and the keyword
  arguments of the call.
\<close>

definition add_section_block ::
  "string \<Rightarrow> (string \<times> string option) list \<Rightarrow> document \<Rightarrow> document" where
  "add_section_block builder kwargs doc = doc @ [Section builder kwargs]"

text \<open>The keyword arguments \<^verbatim>\<open>name=name\<close> that pass values on under their own names.\<close>

definition kw :: "form \<Rightarrow> string list \<Rightarrow> (string \<times> string option) list" where
  "kw form names = map (\<lambda>n. (n, form n)) names"

text \<open>
  The builder calls, first to last; both endpoints make the same calls with the same
  keywords, \<^verbatim>\<open>generate_full_section\<close> from the submitted fields and
  \<^verbatim>\<open>generate_sample\<close> from its example values.
\<close>

definition section_calls :: "form \<Rightarrow> string option \<Rightarrow> (string \<times> (string \<times> string option) list) list"
  where
  "section_calls f image_bytes =
     [(''add_formulir_tallysheet'',
         (''nomor'', Some ''1'') # kw f
           [''latitude_derajat'', ''latitude_menit'', ''latitude_detik'', ''latitude_arah'',
            ''longitude_derajat'', ''longitude_menit'', ''longitude_detik'', ''longitude_arah'']),
      (''add_elevasi_lahan_row'', (''nomor'', Some ''2'') # kw f [''elevasi_lahan'']),
      (''add_kondisi_air_tanah_row'',
         kw f
           [''kedalaman_air_tanah'', ''genangan'', ''banjir_bulan'', ''banjir_lama_hari'',
            ''banjir_ketinggian_air'', ''sumber_air_hujan'', ''sumber_air_limpasan_sungai'',
            ''sumber_air_kiriman_hulu'', ''sumber_air_lainnya_checkbox'',
            ''sumber_air_lainnya_text'']),
      (''add_tutupan_lahan_row'',
         (''nomor'', Some ''4'') # kw f
           [''jenis_tanaman'', ''status_masyarakat'', ''status_perusahaan'',
            ''nama_perusahaan'', ''luas_konsesi'']),
      (''add_flora_fauna_row'',
         (''numero'', Some ''5'') # kw f
           [''flora_tidak_ada'', ''flora_ada'', ''flora_jenis'', ''fauna_tidak_ada'',
            ''fauna_ada'', ''fauna_jenis'']),
      (''add_drainase_row'',
         (''nomor'', Some ''6'') # kw f
           [''drainase_alami_tidak_ada'', ''drainase_alami_ada'', ''drainase_buatan_tidak_ada'',
            ''drainase_buatan_ada'', ''drainase_buatan_saluran_terbuka'',
            ''drainase_buatan_saluran_terkontrol'', ''tinggi_muka_air_saluran'']),
      (''add_kualitas_air_row'',
         (''nomor'', Some ''7'') # kw f
           [''kualitas_air_tanah_ph'', ''kualitas_air_saluran_ph'', ''kualitas_air_tanah_ec'',
            ''kualitas_air_saluran_ec'', ''kualitas_air_tanah_tds'', ''kualitas_air_saluran_tds'']),
      (''add_substratum_tanah_liat_row'',
         (''nomor'', Some ''8'') # kw f [''substratum_tanah_liat_ph'', ''substratum_tanah_liat_ec'']),
      (''add_tipe_luapan_row'',
         (''nomor'', Some ''9'') # kw f
           [''tipe_luapan_kemarau_a'', ''tipe_luapan_kemarau_b'', ''tipe_luapan_kemarau_c'',
            ''tipe_luapan_kemarau_d'', ''tipe_luapan_hujan_a'', ''tipe_luapan_hujan_b'',
            ''tipe_luapan_hujan_c'', ''tipe_luapan_hujan_d'']),
      (''add_ketebalan_gambut_row'',
         (''nomor'', Some ''10'') # kw f
           [''ketebalan_gambut_cm'', ''tingkat_perombakan_saprik'', ''tingkat_perombakan_hemik'',
            ''tingkat_perombakan_fibrik'']),
      (''add_substratum_bawah_gambut_row'',
         (''nomor'', Some ''11'') # kw f
           [''substratum_pasir_kwarsa'', ''substratum_clay_sedimen_sungai'',
            ''substratum_sedimen_berpirit'', ''substratum_granit'',
            ''substratum_lainnya_checkbox'', ''substratum_lainnya_text'']),
      (''add_perkembangan_kerusakan_row'',
         (''nomor'', Some ''12'') # kw f
           [''kerusakan_drainase_buatan'', ''kerusakan_terekspos_sedimen'',
            ''kondisi_tanaman_tidak_normal'', ''kondisi_tanaman_tidak_produktif'',
            ''kondisi_tanaman_miring_tumbang'', ''kondisi_tanaman_terjadi_subsiden_checkbox'',
            ''kondisi_tanaman_subsiden_cm'', ''kerapatan_tajuk'']),
      (''add_informasi_kebakaran_row'',
         (''nomor'', Some ''13'') # kw f
           [''kebakaran_tahun'', ''kebakaran_bulan'', ''kebakaran_tanggal'',
            ''kebakaran_lama_kejadian_bulan'', ''pemadaman_swadaya_masyarakat'',
            ''pemadaman_bantuan_pemerintah'', ''hujan_tanggal'', ''hujan_bulan'',
            ''hujan_tahun'', ''hujan_lama_kejadian_jam'', ''intensitas_hujan_tinggi'',
            ''intensitas_hujan_sedang'', ''intensitas_hujan_rendah'']),
      (''add_analisis_lab_header'', []),
      (''add_porositas_row'', (''nomor'', Some ''14'') # kw f [''porositas_bobot_isi'']),
      (''add_kelengasan_row'', (''nomor'', Some ''15'') # kw f [''kelengasan_kadar_air'']),
      (''add_c_organik_row'', (''nomor'', Some ''16'') # kw f [''c_organik'']),
      (''add_sketsa_lokasi_row'', [(''sketsa_image_bytes'', image_bytes)])]"

definition add_sections :: "form \<Rightarrow> string option \<Rightarrow> document \<Rightarrow> document" where
  "add_sections f image_bytes doc =
     foldl (\<lambda>d call. add_section_block (fst call) (snd call) d) doc (section_calls f image_bytes)"

text \<open>The example values that \<^verbatim>\<open>generate_sample\<close> passes under these keywords.\<close>

definition sample_values :: form where
  "sample_values = map_of
     [(''latitude_derajat'', ''1''), (''latitude_menit'', ''23''), (''latitude_detik'', ''45''),
      (''latitude_arah'', ''LS''), (''longitude_derajat'', ''102''), (''longitude_menit'', ''10''),
      (''longitude_detik'', ''12''), (''longitude_arah'', ''BT''),
      (''elevasi_lahan'', ''12''),
      (''kedalaman_air_tanah'', ''45''), (''genangan'', ''10''), (''banjir_bulan'', ''Januari''),
      (''banjir_lama_hari'', ''5''), (''banjir_ketinggian_air'', ''20''),
      (''sumber_air_hujan'', ''on''), (''sumber_air_limpasan_sungai'', []),
      (''sumber_air_kiriman_hulu'', ''on''), (''sumber_air_lainnya_checkbox'', []),
      (''sumber_air_lainnya_text'', ''drainase tersumbat''),
      (''jenis_tanaman'', ''Kelapa''), (''status_masyarakat'', ''on''),
      (''status_perusahaan'', []), (''nama_perusahaan'', []), (''luas_konsesi'', []),
      (''flora_tidak_ada'', []), (''flora_ada'', ''on''), (''flora_jenis'', ''Rafflesia''),
      (''fauna_tidak_ada'', []), (''fauna_ada'', ''on''), (''fauna_jenis'', ''Orangutan''),
      (''drainase_alami_tidak_ada'', []), (''drainase_alami_ada'', ''on''),
      (''drainase_buatan_tidak_ada'', []), (''drainase_buatan_ada'', ''on''),
      (''drainase_buatan_saluran_terbuka'', ''on''),
      (''drainase_buatan_saluran_terkontrol'', []), (''tinggi_muka_air_saluran'', ''30''),
      (''kualitas_air_tanah_ph'', ''4.2''), (''kualitas_air_saluran_ph'', ''5.6''),
      (''kualitas_air_tanah_ec'', ''120''), (''kualitas_air_saluran_ec'', ''200''),
      (''kualitas_air_tanah_tds'', ''50''), (''kualitas_air_saluran_tds'', ''80''),
      (''substratum_tanah_liat_ph'', ''6.6''), (''substratum_tanah_liat_ec'', ''300''),
      (''tipe_luapan_kemarau_a'', ''on''), (''tipe_luapan_kemarau_b'', []),
      (''tipe_luapan_kemarau_c'', []), (''tipe_luapan_kemarau_d'', []),
      (''tipe_luapan_hujan_a'', []), (''tipe_luapan_hujan_b'', ''on''),
      (''tipe_luapan_hujan_c'', []), (''tipe_luapan_hujan_d'', []),
      (''ketebalan_gambut_cm'', ''120''), (''tingkat_perombakan_saprik'', ''on''),
      (''tingkat_perombakan_hemik'', []), (''tingkat_perombakan_fibrik'', []),
      (''substratum_pasir_kwarsa'', ''on''), (''substratum_clay_sedimen_sungai'', []),
      (''substratum_sedimen_berpirit'', []), (''substratum_granit'', []),
      (''substratum_lainnya_checkbox'', []), (''substratum_lainnya_text'', []),
      (''kerusakan_drainase_buatan'', ''on''), (''kerusakan_terekspos_sedimen'', []),
      (''kondisi_tanaman_tidak_normal'', ''on''), (''kondisi_tanaman_tidak_produktif'', []),
      (''kondisi_tanaman_miring_tumbang'', []),
      (''kondisi_tanaman_terjadi_subsiden_checkbox'', []),
      (''kondisi_tanaman_subsiden_cm'', []), (''kerapatan_tajuk'', ''3''),
      (''kebakaran_tahun'', ''2023''), (''kebakaran_bulan'', ''Agustus''),
      (''kebakaran_tanggal'', ''15''), (''kebakaran_lama_kejadian_bulan'', ''1''),
      (''pemadaman_swadaya_masyarakat'', ''on''), (''pemadaman_bantuan_pemerintah'', []),
      (''hujan_tanggal'', ''10''), (''hujan_bulan'', ''07''), (''hujan_tahun'', ''2024''),
      (''hujan_lama_kejadian_jam'', ''6''), (''intensitas_hujan_tinggi'', ''on''),
      (''intensitas_hujan_sedang'', []), (''intensitas_hujan_rendah'', []),
      (''porositas_bobot_isi'', ''45''), (''kelengasan_kadar_air'', ''85''),
      (''c_organik'', ''58'')]"

section \<open>The request handlers\<close>

text \<open>
  An upload is an object with a \<^verbatim>\<open>read\<close> method; \<^term>\<open>UploadFile None\<close> is one whose
  \<^verbatim>\<open>read\<close> raises, \<^term>\<open>UploadFile (Some b)\<close> one that gives the bytes \<^term>\<open>b\<close>.
\<close>

datatype upload = UploadFile "string option"

record request =
  text_fields :: form
  uploads :: "string \<Rightarrow> upload option"

text \<open>
  What a handler does to the world outside the request: the \<^verbatim>\<open>Document()\<close> objects it
  constructs, the temporary files on disk (a file holds \<^term>\<open>None\<close> while no complete
  document has been saved into it), and the clean-up tasks it schedules.
\<close>

record world =
  documents :: nat
  tmp_files :: "(string \<times> document option) list"
  cleanup_tasks :: "string list"

text \<open>
  What the environment decides for one call: the name of the temporary file, the UUID,
  and whether \<^verbatim>\<open>Document()\<close>, \<^verbatim>\<open>tempfile.NamedTemporaryFile\<close> or \<^verbatim>\<open>doc.save\<close> raises
  (a missing template, a full disk, a directory that cannot be written). None of the
  three calls is inside a \<^verbatim>\<open>try\<close>.
\<close>

datatype io_exn = OSError | PackageNotFoundError

record env =
  tmpf_name :: string
  uuid4 :: nat
  document_error :: "io_exn option"
  tmpfile_error :: "io_exn option"
  save_error :: "io_exn option"

text \<open>
  \<^verbatim>\<open>JSONResponse(status_code=422, content={"detail": errors})\<close> carries its status and the
  list under \<^verbatim>\<open>"detail"\<close>; \<^verbatim>\<open>FileResponse(path, media_type, filename)\<close> has the default
  status 200. \<^term>\<open>ServerError x\<close> stands for the exception \<^term>\<open>x\<close> leaving the handler:
  the framework answers it with status 500.
\<close>

datatype response =
    JSONResponse nat "error_entry list"
  | FileResponse string string string
  | ServerError io_exn

fun http_status :: "response \<Rightarrow> nat" where
  "http_status (JSONResponse status_code detail) = status_code"
| "http_status (FileResponse path media_type filename) = 200"
| "http_status (ServerError x) = 500"

text \<open>\<^verbatim>\<open>uuid.uuid4().hex\<close>: the 128 bits as 32 lower-case hexadecimal digits.\<close>

definition hexdigit :: "nat \<Rightarrow> char" where
  "hexdigit n = ''0123456789abcdef'' ! (n mod 16)"

fun hex_digits :: "nat \<Rightarrow> nat \<Rightarrow> string" where
  "hex_digits 0 n = []"
| "hex_digits (Suc k) n = hex_digits k (n div 16) @ [hexdigit n]"

definition uuid_hex :: "nat \<Rightarrow> string" where
  "uuid_hex u = hex_digits 32 u"

definition docx_media_type :: string where
  "docx_media_type = ''application/vnd.openxmlformats-officedocument.wordprocessingml.document''"

text \<open>
  The common end of both handlers. \<^verbatim>\<open>NamedTemporaryFile(delete=False)\<close> creates the file
  or raises; \<^verbatim>\<open>doc.save\<close> writes the document into it or raises, and then the file
  stays on disk without a complete document and without a clean-up task, since the
  task is added only after the save. Otherwise the clean-up is scheduled and the
  \<^verbatim>\<open>FileResponse\<close> returned.
\<close>

definition save_and_respond :: "string \<Rightarrow> document \<Rightarrow> env \<Rightarrow> world \<Rightarrow> response \<times> world" where
  "save_and_respond prefix doc e w =
     (case tmpfile_error e of
        Some x \<Rightarrow> (ServerError x, w)
      | None \<Rightarrow>
          (case save_error e of
             Some x \<Rightarrow> (ServerError x, w\<lparr>tmp_files := tmp_files w @ [(tmpf_name e, None)]\<rparr>)
           | None \<Rightarrow>
               let out_name = prefix @ uuid_hex (uuid4 e) @ ''.docx''
               in (FileResponse (tmpf_name e) docx_media_type out_name,
                   w\<lparr>tmp_files := tmp_files w @ [(tmpf_name e, Some doc)],
                     cleanup_tasks := cleanup_tasks w @ [tmpf_name e]\<rparr>)))"

definition photo_fields :: "string list" where
  "photo_fields =
     [''foto_air_tanah_genangan_1'', ''foto_air_tanah_genangan_2'',
      ''foto_tutupan_lahan_1'', ''foto_tutupan_lahan_2'',
      ''foto_flora_fauna_1'', ''foto_flora_fauna_2'',
      ''foto_drainase_alami'', ''foto_drainase_buatan'',
      ''foto_kualitas_air_ec'', ''foto_kualitas_air_tds'', ''foto_kualitas_air_ph'',
      ''foto_tmat_1'', ''foto_tmat_2'',
      ''foto_ketebalan_gambut_1'', ''foto_ketebalan_gambut_2'',
      ''foto_substratum_ec'', ''foto_substratum_ph'',
      ''foto_kerusakan_lahan_gambut_1'', ''foto_kerusakan_lahan_gambut_2'',
      ''foto_karakteristik_tanah_pirit_1'', ''foto_karakteristik_tanah_pirit_2'',
      ''foto_porositas_kelengasan_1'', ''foto_porositas_kelengasan_2'']
     @ tambahan_keys"

text \<open>\<^verbatim>\<open>await upload.read()\<close> under \<^verbatim>\<open>try\<close>, \<^verbatim>\<open>None\<close> when there is no upload or it raises.\<close>

fun read_upload :: "upload option \<Rightarrow> string option" where
  "read_upload None = None"
| "read_upload (Some (UploadFile r)) = r"

definition collect_images :: "request \<Rightarrow> images" where
  "collect_images req fname =
     (if fname \<in> set photo_fields then map_option Bytes (read_upload (uploads req fname))
      else None)"

definition default_max_image_width_inches :: real where
  "default_max_image_width_inches = 2.8"

text \<open>
  \<^verbatim>\<open>generate_full_section\<close>: the fields are validated first, and a non-empty error list
  is returned as the 422 response before \<^verbatim>\<open>Document()\<close> is reached.
\<close>

definition generate_full_section ::
  "(source \<Rightarrow> image_exn option) \<Rightarrow> env \<Rightarrow> request \<Rightarrow> world \<Rightarrow> response \<times> world" where
  "generate_full_section add_picture e req w =
     (let form = text_fields req;
          errors = validate_numeric_fields form numeric_rules
      in if errors \<noteq> [] then (JSONResponse 422 errors, w)
         else
           case document_error e of
             Some x \<Rightarrow> (ServerError x, w)
           | None \<Rightarrow>
               let w1 = w\<lparr>documents := documents w + 1\<rparr>;
                   image_bytes = read_upload (uploads req ''sketsa_lokasi_image'');
                   doc = add_sections form image_bytes [];
                   imgs = collect_images req;
                   doc = add_foto_lapangan_section add_picture doc imgs
                           default_max_image_width_inches;
                   doc = add_additional_photo_sections add_picture doc imgs
                           default_max_image_width_inches
               in save_and_respond ''tallysheet_'' doc e w1)"

text \<open>
  \<^verbatim>\<open>generate_sample\<close> takes no request: the same builders run on the example values, the
  sketch is \<^verbatim>\<open>None\<close> and the photo dict is empty.
\<close>

definition generate_sample ::
  "(source \<Rightarrow> image_exn option) \<Rightarrow> env \<Rightarrow> world \<Rightarrow> response \<times> world" where
  "generate_sample add_picture e w =
     (case document_error e of
        Some x \<Rightarrow> (ServerError x, w)
      | None \<Rightarrow>
          let w1 = w\<lparr>documents := documents w + 1\<rparr>;
              doc = add_sections sample_values None [];
              doc = add_foto_lapangan_section add_picture doc (\<lambda>_. None)
                      default_max_image_width_inches;
              doc = add_additional_photo_sections add_picture doc (\<lambda>_. None)
                      default_max_image_width_inches
          in save_and_respond ''tallysheet_sample_'' doc e w1)"

text \<open>
  What a document shows: the text of every paragraph, in order (of a block, of the
  cells of a table row by row), and the cells of its tables.
\<close>

fun block_texts :: "block \<Rightarrow> string list" where
  "block_texts (Par p) = [paragraph_text p]"
| "block_texts (Table rows) = map paragraph_text (concat (map paragraphs (concat rows)))"
| "block_texts (Section builder kwargs) = []"

fun block_cells :: "block \<Rightarrow> cell list" where
  "block_cells (Table rows) = concat rows"
| "block_cells b = []"

section \<open>Properties of the numeric validator\<close>

lemma validate_step_eq:
  "validate_step form errors rule =
     errors @ (if rule_fails form rule then [rule_error form rule] else [])"
  by (cases rule)
     (auto simp: rule_fails_def rule_error_def blank_def parses_def Let_def
           split: option.splits sum.splits)

lemma validate_loop_eq:
  "validate_loop form rules errors =
     errors @ map (rule_error form) (filter (rule_fails form) rules)"
  by (induction rules arbitrary: errors) (simp_all add: validate_step_eq)

lemma validate_numeric_fields_eq:
  "validate_numeric_fields form rules = map (rule_error form) (filter (rule_fails form) rules)"
  by (simp add: validate_numeric_fields_def validate_loop_eq)

lemma field_rule_error [simp]: "field (rule_error form rule) = fst rule"
  by (simp add: rule_error_def)

lemma strip_digit_5 [simp]: "strip ''5'' = ''5''" and strip_5_5 [simp]: "strip ''5.5'' = ''5.5''"
  by (simp_all add: strip_def isspace_def)

lemma py_int_5 [simp]: "py_int ''5'' = Inr ()" and py_int_5_5 [simp]: "py_int ''5.5'' = Inl ValueError"
  by (simp_all add: py_int_def drop_sign_def isdigit_def int_max_str_digits_def)

text \<open>
  C1. A rule whose field is absent or blank adds nothing to the result; a rule whose
  trimmed text does not parse under its kind adds exactly one record, with the field
  name and the message \<^verbatim>\<open>Expected <kind> but got '<trimmed text>'\<close>, between the errors
  of the rules before it and those of the rules after it. The validator does not stop
  at the first error: the fields of the result are the names of the failing rules, one
  entry each, distinct when the rules name distinct fields; and the result is empty
  exactly when no rule fails.
\<close>

theorem validate_numeric_fields_collects_all_errors:
  "(blank form fld \<longrightarrow>
      validate_numeric_fields form (rs1 @ (fld, is_int) # rs2) =
        validate_numeric_fields form rs1 @ validate_numeric_fields form rs2)
   \<and> (form fld = Some v \<and> strip v \<noteq> [] \<and> \<not> parses is_int (strip v) \<longrightarrow>
      validate_numeric_fields form (rs1 @ (fld, is_int) # rs2) =
        validate_numeric_fields form rs1
        @ [\<lparr>field = fld,
             msg = ''Expected '' @ (if is_int then ''integer'' else ''number'')
                   @ '' but got '' @ [CHR 0x27] @ strip v @ [CHR 0x27]\<rparr>]
        @ validate_numeric_fields form rs2)
   \<and> map field (validate_numeric_fields form rules) = map fst (filter (rule_fails form) rules)
   \<and> (distinct (map fst rules) \<longrightarrow> distinct (map field (validate_numeric_fields form rules)))
   \<and> (validate_numeric_fields form rules = [] \<longleftrightarrow> (\<forall>rule \<in> set rules. \<not> rule_fails form rule))"
proof (intro conjI impI)
  assume "blank form fld"
  then show "validate_numeric_fields form (rs1 @ (fld, is_int) # rs2) =
        validate_numeric_fields form rs1 @ validate_numeric_fields form rs2"
    by (simp add: validate_numeric_fields_eq rule_fails_def)
next
  assume a: "form fld = Some v \<and> strip v \<noteq> [] \<and> \<not> parses is_int (strip v)"
  then have "rule_fails form (fld, is_int)"
    by (simp add: rule_fails_def blank_def)
  moreover have "rule_error form (fld, is_int) = \<lparr>field = fld,
             msg = ''Expected '' @ (if is_int then ''integer'' else ''number'')
                   @ '' but got '' @ [CHR 0x27] @ strip v @ [CHR 0x27]\<rparr>"
    using a by (simp add: rule_error_def expected_msg_def)
  ultimately show "validate_numeric_fields form (rs1 @ (fld, is_int) # rs2) =
        validate_numeric_fields form rs1
        @ [\<lparr>field = fld,
             msg = ''Expected '' @ (if is_int then ''integer'' else ''number'')
                   @ '' but got '' @ [CHR 0x27] @ strip v @ [CHR 0x27]\<rparr>]
        @ validate_numeric_fields form rs2"
    by (simp add: validate_numeric_fields_eq)
next
  show m: "map field (validate_numeric_fields form rules) = map fst (filter (rule_fails form) rules)"
    by (simp add: validate_numeric_fields_eq comp_def)
  assume "distinct (map fst rules)"
  then show "distinct (map field (validate_numeric_fields form rules))"
    unfolding m by (simp add: distinct_map_filter)
next
  show "validate_numeric_fields form rules = [] \<longleftrightarrow> (\<forall>rule \<in> set rules. \<not> rule_fails form rule)"
    by (simp add: validate_numeric_fields_eq filter_empty_conv)
qed

text \<open>
  The theorem at a form with a blank field \<^verbatim>\<open>c\<close> and two invalid fields \<^verbatim>\<open>a\<close> and \<^verbatim>\<open>b\<close>:
  the blank rule adds nothing, and both invalid fields are reported, in rule order.
\<close>

theorem validate_numeric_fields_collects_all_errors_witness:
  "blank [''a'' \<mapsto> ''abc'', ''b'' \<mapsto> ''5.5'', ''c'' \<mapsto> ''  ''] ''c''
   \<and> \<not> parses True (strip ''5.5'')
   \<and> distinct (map fst [(''a'', False), (''c'', True), (''b'', True)])
   \<and> validate_numeric_fields [''a'' \<mapsto> ''abc'', ''b'' \<mapsto> ''5.5'', ''c'' \<mapsto> ''  '']
        ([(''a'', False)] @ (''c'', True) # [(''b'', True)]) =
      validate_numeric_fields [''a'' \<mapsto> ''abc'', ''b'' \<mapsto> ''5.5'', ''c'' \<mapsto> ''  '']
        [(''a'', False)]
      @ validate_numeric_fields [''a'' \<mapsto> ''abc'', ''b'' \<mapsto> ''5.5'', ''c'' \<mapsto> ''  '']
        [(''b'', True)]
   \<and> validate_numeric_fields [''a'' \<mapsto> ''abc'', ''b'' \<mapsto> ''5.5'', ''c'' \<mapsto> ''  '']
        ([(''a'', False), (''c'', True)] @ (''b'', True) # []) =
      validate_numeric_fields [''a'' \<mapsto> ''abc'', ''b'' \<mapsto> ''5.5'', ''c'' \<mapsto> ''  '']
        [(''a'', False), (''c'', True)]
      @ [\<lparr>field = ''b'', msg = ''Expected integer but got '' @ [CHR 0x27] @ ''5.5'' @ [CHR 0x27]\<rparr>]
      @ validate_numeric_fields [''a'' \<mapsto> ''abc'', ''b'' \<mapsto> ''5.5'', ''c'' \<mapsto> ''  ''] []
   \<and> distinct (map field
        (validate_numeric_fields [''a'' \<mapsto> ''abc'', ''b'' \<mapsto> ''5.5'', ''c'' \<mapsto> ''  '']
           [(''a'', False), (''c'', True), (''b'', True)]))"
proof -
  let ?F = "[''a'' \<mapsto> ''abc'', ''b'' \<mapsto> ''5.5'', ''c'' \<mapsto> ''  '']"
  let ?R = "[(''a'', False), (''c'', True), (''b'', True)]"
  note at_c = validate_numeric_fields_collects_all_errors
      [of ?F "''c''" "[(''a'', False)]" True "[(''b'', True)]" "''5.5''" ?R]
  note at_b = validate_numeric_fields_collects_all_errors
      [of ?F "''b''" "[(''a'', False), (''c'', True)]" True "[]" "''5.5''" ?R]
  have b: "blank ?F ''c''"
    by (simp add: blank_def strip_def isspace_def)
  have p: "?F ''b'' = Some ''5.5'' \<and> strip ''5.5'' \<noteq> [] \<and> \<not> parses True (strip ''5.5'')"
    by (simp add: parses_def)
  have d: "distinct (map fst ?R)"
    by simp
  from at_c [THEN conjunct1] b
  have r1: "validate_numeric_fields ?F ([(''a'', False)] @ (''c'', True) # [(''b'', True)]) =
      validate_numeric_fields ?F [(''a'', False)] @ validate_numeric_fields ?F [(''b'', True)]"
    by (rule mp)
  from at_b [THEN conjunct2, THEN conjunct1] p
  have r2: "validate_numeric_fields ?F ([(''a'', False), (''c'', True)] @ (''b'', True) # []) =
      validate_numeric_fields ?F [(''a'', False), (''c'', True)]
      @ [\<lparr>field = ''b'',
           msg = ''Expected '' @ (if True then ''integer'' else ''number'')
                 @ '' but got '' @ [CHR 0x27] @ strip ''5.5'' @ [CHR 0x27]\<rparr>]
      @ validate_numeric_fields ?F []"
    by (rule mp)
  from at_c [THEN conjunct2, THEN conjunct2, THEN conjunct2, THEN conjunct1] d
  have r4: "distinct (map field (validate_numeric_fields ?F ?R))"
    by (rule mp)
  from r2 have r2': "validate_numeric_fields ?F ([(''a'', False), (''c'', True)] @ (''b'', True) # []) =
      validate_numeric_fields ?F [(''a'', False), (''c'', True)]
      @ [\<lparr>field = ''b'', msg = ''Expected integer but got '' @ [CHR 0x27] @ ''5.5'' @ [CHR 0x27]\<rparr>]
      @ validate_numeric_fields ?F []"
    by simp
  from p have p': "\<not> parses True (strip ''5.5'')"
    by (rule conjunct2 [THEN conjunct2])
  from b p' d r1 r2' r4 show ?thesis
    by (intro conjI)
qed

text \<open>
  C9. The validator is a total function: the \<^verbatim>\<open>ValueError\<close> of \<^verbatim>\<open>int\<close> and \<^verbatim>\<open>float\<close> is
  a value that the \<^verbatim>\<open>except\<close> branch turns into an error record, and nothing else in
  the loop can raise. Its result is the list of the failing rules' records in the
  order of the rule list, so it distributes over a split of the rule list; a field
  named by several failing rules has one record for each of them; and there are never
  more records than rules.
\<close>

theorem validate_numeric_fields_total_in_rule_order:
  "validate_numeric_fields form rules = map (rule_error form) (filter (rule_fails form) rules)
   \<and> validate_numeric_fields form (rs1 @ rs2) =
       validate_numeric_fields form rs1 @ validate_numeric_fields form rs2
   \<and> length (filter (\<lambda>e. field e = fld) (validate_numeric_fields form rules)) =
       length (filter (\<lambda>rule. fst rule = fld \<and> rule_fails form rule) rules)
   \<and> length (validate_numeric_fields form rules) \<le> length rules"
proof (intro conjI)
  show "validate_numeric_fields form rules = map (rule_error form) (filter (rule_fails form) rules)"
    by (rule validate_numeric_fields_eq)
  show "validate_numeric_fields form (rs1 @ rs2) =
       validate_numeric_fields form rs1 @ validate_numeric_fields form rs2"
    by (simp add: validate_numeric_fields_eq)
  have "filter (\<lambda>e. field e = fld) (map (rule_error form) (filter (rule_fails form) rules)) =
        map (rule_error form) (filter (\<lambda>rule. fst rule = fld \<and> rule_fails form rule) rules)"
    by (induction rules) simp_all
  then show "length (filter (\<lambda>e. field e = fld) (validate_numeric_fields form rules)) =
       length (filter (\<lambda>rule. fst rule = fld \<and> rule_fails form rule) rules)"
    by (simp add: validate_numeric_fields_eq)
  show "length (validate_numeric_fields form rules) \<le> length rules"
    by (simp add: validate_numeric_fields_eq)
qed

text \<open>
  The theorem at a rule list that names the field \<^verbatim>\<open>x\<close> twice, around a valid field:
  two records for \<^verbatim>\<open>x\<close>, integer rule first, as in the rule list.
\<close>

theorem validate_numeric_fields_total_in_rule_order_witness:
  "validate_numeric_fields [''x'' \<mapsto> ''abc'', ''y'' \<mapsto> ''5'']
     [(''x'', True), (''y'', True), (''x'', False)] =
     [\<lparr>field = ''x'', msg = ''Expected integer but got '' @ [CHR 0x27] @ ''abc'' @ [CHR 0x27]\<rparr>,
      \<lparr>field = ''x'', msg = ''Expected number but got '' @ [CHR 0x27] @ ''abc'' @ [CHR 0x27]\<rparr>]
   \<and> length (filter (\<lambda>e. field e = ''x'')
        (validate_numeric_fields [''x'' \<mapsto> ''abc'', ''y'' \<mapsto> ''5'']
           [(''x'', True), (''y'', True), (''x'', False)])) = 2"
proof -
  let ?F = "[''x'' \<mapsto> ''abc'', ''y'' \<mapsto> ''5'']"
  let ?R = "[(''x'', True), (''y'', True), (''x'', False)]"
  have s: "strip ''abc'' = ''abc''"
    by (simp add: strip_def isspace_def)
  have i: "py_int ''abc'' = Inl ValueError"
    by (simp add: py_int_def s drop_sign_def isdigit_def)
  have f: "py_float ''abc'' = Inl ValueError"
    by (simp add: py_float_def s drop_sign_def floatnumber_def number_def isdigit_def
          ascii_lower_def)
  have fails: "rule_fails ?F (''x'', True)" "\<not> rule_fails ?F (''y'', True)"
      "rule_fails ?F (''x'', False)"
    by (simp_all add: rule_fails_def blank_def parses_def s i f)
  have errs: "rule_error ?F (''x'', True) =
      \<lparr>field = ''x'', msg = ''Expected integer but got '' @ [CHR 0x27] @ ''abc'' @ [CHR 0x27]\<rparr>"
    "rule_error ?F (''x'', False) =
      \<lparr>field = ''x'', msg = ''Expected number but got '' @ [CHR 0x27] @ ''abc'' @ [CHR 0x27]\<rparr>"
    by (simp_all add: rule_error_def expected_msg_def s)
  note t = validate_numeric_fields_total_in_rule_order [of ?F ?R "[]" "[]" "''x''"]
  from t [THEN conjunct1] fails errs
  have 1: "validate_numeric_fields ?F ?R =
     [\<lparr>field = ''x'', msg = ''Expected integer but got '' @ [CHR 0x27] @ ''abc'' @ [CHR 0x27]\<rparr>,
      \<lparr>field = ''x'', msg = ''Expected number but got '' @ [CHR 0x27] @ ''abc'' @ [CHR 0x27]\<rparr>]"
    by simp
  from t [THEN conjunct2, THEN conjunct2, THEN conjunct1] fails
  have 2: "length (filter (\<lambda>e. field e = ''x'') (validate_numeric_fields ?F ?R)) = 2"
    by simp
  from 1 2 show ?thesis
    by (rule conjI)
qed

text \<open>
  C4. \<^verbatim>\<open>banjir_lama_hari\<close> is validated as an integer: whatever else the form holds,
  the value \<^verbatim>\<open>5.5\<close> for it puts the record \<^verbatim>\<open>Expected integer but got '5.5'\<close> into the
  result, and the value \<^verbatim>\<open>5\<close> leaves the result without a record for that field. It
  is the only rule of the table declared integer; the other 25 are real-valued.
\<close>

theorem banjir_lama_hari_is_the_integer_rule:
  "(form ''banjir_lama_hari'' = Some ''5.5'' \<longrightarrow>
      \<lparr>field = ''banjir_lama_hari'',
       msg = ''Expected integer but got '' @ [CHR 0x27] @ ''5.5'' @ [CHR 0x27]\<rparr>
        \<in> set (validate_numeric_fields form numeric_rules))
   \<and> (form ''banjir_lama_hari'' = Some ''5'' \<longrightarrow>
      ''banjir_lama_hari'' \<notin> field ` set (validate_numeric_fields form numeric_rules))
   \<and> filter snd numeric_rules = [(''banjir_lama_hari'', True)]
   \<and> length (filter (\<lambda>rule. \<not> snd rule) numeric_rules) = 25"
proof (intro conjI impI)
  assume a: "form ''banjir_lama_hari'' = Some ''5.5''"
  have m: "(''banjir_lama_hari'', True) \<in> set numeric_rules"
    by (simp add: numeric_rules_def)
  from a have "rule_fails form (''banjir_lama_hari'', True)"
    by (simp add: rule_fails_def blank_def parses_def)
  moreover from a have "rule_error form (''banjir_lama_hari'', True) =
      \<lparr>field = ''banjir_lama_hari'',
       msg = ''Expected integer but got '' @ [CHR 0x27] @ ''5.5'' @ [CHR 0x27]\<rparr>"
    by (simp add: rule_error_def expected_msg_def)
  ultimately show "\<lparr>field = ''banjir_lama_hari'',
       msg = ''Expected integer but got '' @ [CHR 0x27] @ ''5.5'' @ [CHR 0x27]\<rparr>
        \<in> set (validate_numeric_fields form numeric_rules)"
    using m unfolding validate_numeric_fields_eq by force
next
  assume a: "form ''banjir_lama_hari'' = Some ''5''"
  have only: "\<forall>rule \<in> set numeric_rules. fst rule = ''banjir_lama_hari'' \<longrightarrow> snd rule"
    by (simp add: numeric_rules_def)
  from a have ok: "\<not> rule_fails form (''banjir_lama_hari'', True)"
    by (simp add: rule_fails_def blank_def parses_def)
  show "''banjir_lama_hari'' \<notin> field ` set (validate_numeric_fields form numeric_rules)"
  proof
    assume "''banjir_lama_hari'' \<in> field ` set (validate_numeric_fields form numeric_rules)"
    then obtain rule where r: "rule \<in> set numeric_rules" "rule_fails form rule"
        "fst rule = ''banjir_lama_hari''"
      unfolding validate_numeric_fields_eq by auto
    with only have "snd rule" by blast
    with r have "rule = (''banjir_lama_hari'', True)"
      by (simp add: prod_eq_iff)
    with r ok show False by simp
  qed
next
  show "filter snd numeric_rules = [(''banjir_lama_hari'', True)]"
    by (simp add: numeric_rules_def)
  show "length (filter (\<lambda>rule. \<not> snd rule) numeric_rules) = 25"
    by (simp add: numeric_rules_def)
qed

text \<open>The theorem at the two forms that hold nothing but the flood duration.\<close>

theorem banjir_lama_hari_is_the_integer_rule_witness:
  "\<lparr>field = ''banjir_lama_hari'',
    msg = ''Expected integer but got '' @ [CHR 0x27] @ ''5.5'' @ [CHR 0x27]\<rparr>
     \<in> set (validate_numeric_fields [''banjir_lama_hari'' \<mapsto> ''5.5''] numeric_rules)
   \<and> ''banjir_lama_hari''
     \<notin> field ` set (validate_numeric_fields [''banjir_lama_hari'' \<mapsto> ''5''] numeric_rules)"
proof -
  have a: "[''banjir_lama_hari'' \<mapsto> ''5.5''] ''banjir_lama_hari'' = Some ''5.5''"
    by simp
  have b: "[''banjir_lama_hari'' \<mapsto> ''5''] ''banjir_lama_hari'' = Some ''5''"
    by simp
  from banjir_lama_hari_is_the_integer_rule
         [of "[''banjir_lama_hari'' \<mapsto> ''5.5'']", THEN conjunct1] a
  have 1: "\<lparr>field = ''banjir_lama_hari'',
    msg = ''Expected integer but got '' @ [CHR 0x27] @ ''5.5'' @ [CHR 0x27]\<rparr>
     \<in> set (validate_numeric_fields [''banjir_lama_hari'' \<mapsto> ''5.5''] numeric_rules)"
    by (rule mp)
  from banjir_lama_hari_is_the_integer_rule
         [of "[''banjir_lama_hari'' \<mapsto> ''5'']", THEN conjunct2, THEN conjunct1] b
  have 2: "''banjir_lama_hari''
     \<notin> field ` set (validate_numeric_fields [''banjir_lama_hari'' \<mapsto> ''5''] numeric_rules)"
    by (rule mp)
  from 1 2 show ?thesis
    by (rule conjI)
qed

section \<open>Properties of the formatting helpers\<close>

text \<open>
  C5. \<^verbatim>\<open>format_input_text\<close> returns a value that is not blank after trimming as it is,
  and for an absent, empty or whitespace-only value a run of underscores, exactly
  \<^verbatim>\<open>placeholder_length\<close> of them (for a length that is not negative); with the default
  length 6 both \<^verbatim>\<open>None\<close> and three spaces give six underscores, and \<^verbatim>\<open>42\<close> gives \<^verbatim>\<open>42\<close>.
\<close>

theorem format_input_text_value_or_placeholder:
  "(v = Some s \<and> strip s \<noteq> [] \<longrightarrow> format_input_text v n = s)
   \<and> (v = None \<or> (\<exists>s. v = Some s \<and> strip s = []) \<longrightarrow>
        format_input_text v n = replicate (nat n) (CHR ''_'')
        \<and> (0 \<le> n \<longrightarrow> int (length (format_input_text v n)) = n))
   \<and> format_input_text None default_placeholder_length = ''______''
   \<and> format_input_text (Some ''   '') default_placeholder_length = ''______''
   \<and> format_input_text (Some ''42'') default_placeholder_length = ''42''"
proof (intro conjI impI)
  assume "v = Some s \<and> strip s \<noteq> []"
  then show "format_input_text v n = s"
    by (simp add: format_input_text_def)
next
  assume b: "v = None \<or> (\<exists>s. v = Some s \<and> strip s = [])"
  then show r: "format_input_text v n = replicate (nat n) (CHR ''_'')"
    by (auto simp: format_input_text_def)
  assume "0 \<le> n"
  then show "int (length (format_input_text v n)) = n"
    unfolding r by simp
next
  have six: "replicate (nat default_placeholder_length) (CHR ''_'') = ''______''"
    by (simp add: default_placeholder_length_def numeral_eq_Suc)
  show "format_input_text None default_placeholder_length = ''______''"
    by (simp add: format_input_text_def six)
  show "format_input_text (Some ''   '') default_placeholder_length = ''______''"
    by (simp add: format_input_text_def six strip_def isspace_def)
  show "format_input_text (Some ''42'') default_placeholder_length = ''42''"
    by (simp add: format_input_text_def strip_def isspace_def)
qed

text \<open>The theorem at the value \<^verbatim>\<open>abc\<close> and at a tab with the placeholder length 3.\<close>

theorem format_input_text_value_or_placeholder_witness:
  "format_input_text (Some ''abc'') 3 = ''abc''
   \<and> format_input_text (Some [CHR 0x09]) 3 = ''___''
   \<and> int (length (format_input_text (Some [CHR 0x09]) 3)) = 3"
proof -
  have a: "Some ''abc'' = Some ''abc'' \<and> strip ''abc'' \<noteq> []"
    by (simp add: strip_def isspace_def)
  have b: "Some [CHR 0x09] = None \<or> (\<exists>s. Some [CHR 0x09] = Some s \<and> strip s = [])"
    by (simp add: strip_def isspace_def)
  from format_input_text_value_or_placeholder [of "Some ''abc''" "''abc''" 3, THEN conjunct1] a
  have 1: "format_input_text (Some ''abc'') 3 = ''abc''"
    by (rule mp)
  from format_input_text_value_or_placeholder
         [of "Some [CHR 0x09]" "[]" 3, THEN conjunct2, THEN conjunct1] b
  have 2: "format_input_text (Some [CHR 0x09]) 3 = replicate (nat 3) (CHR ''_'')
        \<and> (0 \<le> (3::int) \<longrightarrow> int (length (format_input_text (Some [CHR 0x09]) 3)) = 3)"
    by (rule mp)
  from 2 have 3: "format_input_text (Some [CHR 0x09]) 3 = ''___''"
    by (simp add: numeral_eq_Suc)
  from 2 have 4: "int (length (format_input_text (Some [CHR 0x09]) 3)) = 3"
    by simp
  from 1 3 4 show ?thesis
    by (intro conjI)
qed

text \<open>
  C6. \<^verbatim>\<open>format_checkbox_as_X\<close> returns \<^verbatim>\<open>X\<close> exactly when the value is present and not
  blank after trimming, and one underscore otherwise; \<^verbatim>\<open>on\<close> gives \<^verbatim>\<open>X\<close>, the empty
  string and \<^verbatim>\<open>None\<close> give the underscore.
\<close>

theorem format_checkbox_as_X_marks_non_blank:
  "(format_checkbox_as_X v = ''X'' \<longleftrightarrow> (\<exists>s. v = Some s \<and> strip s \<noteq> []))
   \<and> (format_checkbox_as_X v = ''_'' \<longleftrightarrow> v = None \<or> (\<exists>s. v = Some s \<and> strip s = []))
   \<and> format_checkbox_as_X (Some ''on'') = ''X''
   \<and> format_checkbox_as_X (Some []) = ''_''
   \<and> format_checkbox_as_X None = ''_''"
proof (intro conjI)
  show "format_checkbox_as_X v = ''X'' \<longleftrightarrow> (\<exists>s. v = Some s \<and> strip s \<noteq> [])"
    by (cases v) (simp_all add: format_checkbox_as_X_def)
  show "format_checkbox_as_X v = ''_'' \<longleftrightarrow> v = None \<or> (\<exists>s. v = Some s \<and> strip s = [])"
    by (cases v) (simp_all add: format_checkbox_as_X_def)
  show "format_checkbox_as_X (Some ''on'') = ''X''"
    by (simp add: format_checkbox_as_X_def strip_def isspace_def)
  show "format_checkbox_as_X (Some []) = ''_''"
    by (simp add: format_checkbox_as_X_def strip_def)
  show "format_checkbox_as_X None = ''_''"
    by (simp add: format_checkbox_as_X_def)
qed

text \<open>The theorem at a checked box sent with spaces around it, and at a box of spaces.\<close>

theorem format_checkbox_as_X_marks_non_blank_witness:
  "format_checkbox_as_X (Some '' on '') = ''X'' \<and> format_checkbox_as_X (Some ''  '') = ''_''"
proof -
  have a: "\<exists>s. Some '' on '' = Some s \<and> strip s \<noteq> []"
    by (simp add: strip_def isspace_def)
  have b: "Some ''  '' = None \<or> (\<exists>s. Some ''  '' = Some s \<and> strip s = [])"
    by (simp add: strip_def isspace_def)
  from format_checkbox_as_X_marks_non_blank [of "Some '' on ''", THEN conjunct1] a
  have 1: "format_checkbox_as_X (Some '' on '') = ''X''"
    by (rule iffD2)
  from format_checkbox_as_X_marks_non_blank [of "Some ''  ''", THEN conjunct2, THEN conjunct1] b
  have 2: "format_checkbox_as_X (Some ''  '') = ''_''"
    by (rule iffD2)
  from 1 2 show ?thesis
    by (rule conjI)
qed

section \<open>Trimming and the numeric parsers\<close>

lemma dropWhile_rev_dropWhile:
  "dropWhile P (rev (dropWhile P (rev (dropWhile P s)))) = rev (dropWhile P (rev (dropWhile P s)))"
proof (cases "dropWhile P s")
  case Nil
  show ?thesis
    unfolding Nil by simp
next
  case (Cons x t)
  then have "\<not> P x"
    by (metis dropWhile_eq_Cons_conv)
  then show ?thesis
    unfolding Cons by (simp add: dropWhile_append3)
qed

lemma strip_strip [simp]: "strip (strip s) = strip s"
proof -
  have "dropWhile isspace (strip s) = strip s"
    unfolding strip_def by (rule dropWhile_rev_dropWhile)
  then have "strip (strip s) = rev (dropWhile isspace (rev (strip s)))"
    by (simp add: strip_def [of "strip s"])
  also have "\<dots> = strip s"
    by (simp add: strip_def)
  finally show ?thesis .
qed

lemma strip_padded:
  assumes "t \<noteq> []" "\<not> isspace (hd t)" "\<not> isspace (last t)"
    and ws1: "\<forall>c \<in> set ws1. isspace c" and ws2: "\<forall>c \<in> set ws2. isspace c"
  shows "strip (ws1 @ t @ ws2) = t"
proof -
  from assms(1,2) have "dropWhile isspace t = t"
    by (cases t) simp_all
  moreover from assms(1,2) have "\<not> (\<forall>c \<in> set t. isspace c)"
    using hd_in_set by blast
  ultimately have 1: "dropWhile isspace (ws1 @ t @ ws2) = t @ ws2"
    using ws1 by (auto simp: dropWhile_append [of isspace ws1] dropWhile_append [of isspace t])
  from assms(1,3) have "dropWhile isspace (rev t) = rev t"
    by (cases t rule: rev_cases) simp_all
  with ws2 have 2: "dropWhile isspace (rev ws2 @ rev t) = rev t"
    by (simp add: dropWhile_append [of isspace "rev ws2"])
  from 1 2 show ?thesis
    by (simp add: strip_def)
qed

lemma isdigit_not_isspace: "isdigit c \<Longrightarrow> \<not> isspace c"
  by (auto simp: isdigit_def isspace_def)

lemma isdigit_not_sign: "isdigit c \<Longrightarrow> c \<noteq> CHR ''+'' \<and> c \<noteq> CHR ''-''"
  by (auto simp: isdigit_def)

lemma digitpart_ends: "digitpart d \<Longrightarrow> d \<noteq> [] \<and> isdigit (hd d) \<and> isdigit (last d)"
  by (induction d rule: digitpart.induct) (auto split: if_splits)

lemma py_int_padded_signed:
  assumes d: "digitpart d" "length (filter isdigit d) \<le> int_max_str_digits"
    and sg: "sg = [] \<or> sg = ''+'' \<or> sg = ''-''"
    and ws: "\<forall>c \<in> set ws1. isspace c" "\<forall>c \<in> set ws2. isspace c"
  shows "strip (ws1 @ (sg @ d) @ ws2) = sg @ d" and "py_int (sg @ d) = Inr ()"
proof -
  from digitpart_ends [OF d(1)]
  have e: "d \<noteq> []" "\<not> isspace (hd d)" "\<not> isspace (last d)"
      "hd d \<noteq> CHR ''+''" "hd d \<noteq> CHR ''-''"
    by (simp_all add: isdigit_not_isspace isdigit_not_sign)
  have signs: "\<not> isspace (CHR ''+'')" "\<not> isspace (CHR ''-'')"
    by (simp_all add: isspace_def)
  from e sg signs
  have "sg @ d \<noteq> []" "\<not> isspace (hd (sg @ d))" "\<not> isspace (last (sg @ d))"
    by auto
  then have s: "strip (ws1' @ (sg @ d) @ ws2') = sg @ d"
    if "\<forall>c \<in> set ws1'. isspace c" "\<forall>c \<in> set ws2'. isspace c" for ws1' ws2'
    using that by (rule strip_padded)
  from s [OF ws] show "strip (ws1 @ (sg @ d) @ ws2) = sg @ d" .
  from s [of "[]" "[]"] have s0: "strip (sg @ d) = sg @ d"
    by simp
  from e sg have "drop_sign (sg @ d) = d"
    by (cases d) (auto simp: drop_sign_def)
  with d s0 show "py_int (sg @ d) = Inr ()"
    by (simp add: py_int_def)
qed

text \<open>
  C10. Under a real-valued rule a non-blank value passes exactly when \<^verbatim>\<open>float\<close> parses
  its trimmed text, so \<^verbatim>\<open>nan\<close>, \<^verbatim>\<open>inf\<close>, \<^verbatim>\<open>1e5\<close> and \<^verbatim>\<open>+3.\<close> give
  no error. Under the integer rule whitespace around the text and a sign in front of the
  digits do not cause an error: a digit string that \<^verbatim>\<open>int\<close> accepts still passes with
  them, as \<^verbatim>\<open>" +5 "\<close> does.
\<close>

theorem validator_accepts_what_float_and_int_parse:
  "(form fld = Some v \<and> strip v \<noteq> [] \<longrightarrow>
      (validate_numeric_fields form [(fld, False)] = [] \<longleftrightarrow> py_float (strip v) = Inr ()))
   \<and> (form fld = Some v \<and> v \<in> set [''nan'', ''inf'', ''1e5'', ''+3.''] \<longrightarrow>
      strip v \<noteq> [] \<and> validate_numeric_fields form [(fld, False)] = [])
   \<and> (form fld = Some (ws1 @ (sg @ d) @ ws2)
        \<and> (\<forall>c \<in> set ws1. isspace c) \<and> (\<forall>c \<in> set ws2. isspace c)
        \<and> sg \<in> set [[], ''+'', ''-'']
        \<and> digitpart d \<and> length (filter isdigit d) \<le> int_max_str_digits \<longrightarrow>
      validate_numeric_fields form [(fld, True)] = [])
   \<and> validate_numeric_fields [fld \<mapsto> '' +5 ''] [(fld, True)] = []"
proof (intro conjI impI)
  assume "form fld = Some v \<and> strip v \<noteq> []"
  then show "validate_numeric_fields form [(fld, False)] = [] \<longleftrightarrow> py_float (strip v) = Inr ()"
    by (simp add: validate_numeric_fields_eq rule_fails_def blank_def parses_def)
next
  assume a: "form fld = Some v \<and> v \<in> set [''nan'', ''inf'', ''1e5'', ''+3.'']"
  then have s: "strip v = v"
    by (auto simp: strip_def isspace_def)
  from a show "strip v \<noteq> []"
    unfolding s by auto
  from a have "py_float v = Inr ()"
    unfolding py_float_def s
    by (auto simp: drop_sign_def floatnumber_def number_def isdigit_def ascii_lower_def)
  with a s show "validate_numeric_fields form [(fld, False)] = []"
    by (simp add: validate_numeric_fields_eq rule_fails_def blank_def parses_def)
next
  assume a: "form fld = Some (ws1 @ (sg @ d) @ ws2)
        \<and> (\<forall>c \<in> set ws1. isspace c) \<and> (\<forall>c \<in> set ws2. isspace c)
        \<and> sg \<in> set [[], ''+'', ''-'']
        \<and> digitpart d \<and> length (filter isdigit d) \<le> int_max_str_digits"
  then have d: "digitpart d" "length (filter isdigit d) \<le> int_max_str_digits"
    and sg: "sg = [] \<or> sg = ''+'' \<or> sg = ''-''"
    and ws: "\<forall>c \<in> set ws1. isspace c" "\<forall>c \<in> set ws2. isspace c"
    by simp_all
  note py_int_padded_signed [OF d sg ws]
  with a show "validate_numeric_fields form [(fld, True)] = []"
    by (simp add: validate_numeric_fields_eq rule_fails_def blank_def parses_def)
next
  have "strip '' +5 '' = ''+5''"
    by (simp add: strip_def isspace_def)
  moreover have "py_int ''+5'' = Inr ()"
    by (simp add: py_int_def strip_def isspace_def drop_sign_def isdigit_def
          int_max_str_digits_def)
  ultimately show "validate_numeric_fields [fld \<mapsto> '' +5 ''] [(fld, True)] = []"
    by (simp add: validate_numeric_fields_eq rule_fails_def blank_def parses_def)
qed

text \<open>
  The theorem at the fields \<^verbatim>\<open>ph = " 1e5 "\<close>, which \<^verbatim>\<open>float\<close> parses, \<^verbatim>\<open>ec = "inf"\<close>, and
  \<^verbatim>\<open>hari = "\t-1_000 "\<close> under the integer rule.
\<close>

theorem validator_accepts_what_float_and_int_parse_witness:
  "py_float (strip '' 1e5 '') = Inr ()
   \<and> validate_numeric_fields [''ph'' \<mapsto> '' 1e5 ''] [(''ph'', False)] = []
   \<and> validate_numeric_fields [''ec'' \<mapsto> ''inf''] [(''ec'', False)] = []
   \<and> validate_numeric_fields [''hari'' \<mapsto> [CHR 0x09] @ (''-'' @ ''1_000'') @ '' '']
        [(''hari'', True)] = []"
proof -
  have "strip '' 1e5 '' = ''1e5''" "strip ''1e5'' = ''1e5''"
    by (simp_all add: strip_def isspace_def)
  then have f: "py_float (strip '' 1e5 '') = Inr ()"
    by (simp add: py_float_def drop_sign_def floatnumber_def number_def isdigit_def)
  have a: "[''ph'' \<mapsto> '' 1e5 ''] ''ph'' = Some '' 1e5 '' \<and> strip '' 1e5 '' \<noteq> []"
    by (simp add: strip_def isspace_def)
  from validator_accepts_what_float_and_int_parse
         [of "[''ph'' \<mapsto> '' 1e5 '']" "''ph''" "'' 1e5 ''", THEN conjunct1] a
  have "validate_numeric_fields [''ph'' \<mapsto> '' 1e5 ''] [(''ph'', False)] = []
          \<longleftrightarrow> py_float (strip '' 1e5 '') = Inr ()"
    by (rule mp)
  with f have 1: "validate_numeric_fields [''ph'' \<mapsto> '' 1e5 ''] [(''ph'', False)] = []"
    by (rule iffD2 [rotated])
  have b: "[''ec'' \<mapsto> ''inf''] ''ec'' = Some ''inf''
      \<and> ''inf'' \<in> set [''nan'', ''inf'', ''1e5'', ''+3.'']"
    by simp
  from validator_accepts_what_float_and_int_parse
         [of "[''ec'' \<mapsto> ''inf'']" "''ec''" "''inf''", THEN conjunct2, THEN conjunct1] b
  have "strip ''inf'' \<noteq> [] \<and> validate_numeric_fields [''ec'' \<mapsto> ''inf''] [(''ec'', False)] = []"
    by (rule mp)
  then have 2: "validate_numeric_fields [''ec'' \<mapsto> ''inf''] [(''ec'', False)] = []"
    by (rule conjunct2)
  let ?F = "[''hari'' \<mapsto> [CHR 0x09] @ (''-'' @ ''1_000'') @ '' '']"
  have c: "?F ''hari'' = Some ([CHR 0x09] @ (''-'' @ ''1_000'') @ '' '')
        \<and> (\<forall>c \<in> set [CHR 0x09]. isspace c) \<and> (\<forall>c \<in> set '' ''. isspace c)
        \<and> ''-'' \<in> set [[], ''+'', ''-'']
        \<and> digitpart ''1_000'' \<and> length (filter isdigit ''1_000'') \<le> int_max_str_digits"
    by (simp add: isspace_def isdigit_def int_max_str_digits_def)
  from validator_accepts_what_float_and_int_parse
         [of ?F "''hari''" _ "[CHR 0x09]" "''-''" "''1_000''" "'' ''",
          THEN conjunct2, THEN conjunct2, THEN conjunct1] c
  have 3: "validate_numeric_fields ?F [(''hari'', True)] = []"
    by (rule mp)
  from f 1 2 3 show ?thesis
    by (intro conjI)
qed

section \<open>Properties of the image inserter\<close>

lemma insert_image_falsy:
  "falsy src \<Longrightarrow>
     insert_image_in_cell add_picture (Cell p ps) src w =
       Cell (p\<lparr>alignment := Some CENTER,
               runs := [\<lparr>run_text = ''(no image)'',
                         run_font = Some \<lparr>font_name = ''Cambria'', font_size = 10,
                                          font_bold = False, font_italic = True\<rparr>,
                         run_picture = None\<rparr>]\<rparr>)
            (map clear ps)"
  by (simp add: Let_def clear_def add_styled_run_def set_run_style_def new_run_def)

lemma insert_image_raises:
  "\<not> falsy src \<Longrightarrow> add_picture (the src) = Some e \<Longrightarrow>
     insert_image_in_cell add_picture (Cell p ps) src w =
       Cell (p\<lparr>alignment := Some CENTER,
               runs := [\<lparr>run_text = [], run_font = None, run_picture = None\<rparr>,
                        \<lparr>run_text = ''(error inserting image)'',
                         run_font = Some \<lparr>font_name = ''Cambria'', font_size = 9,
                                          font_bold = False, font_italic = True\<rparr>,
                         run_picture = None\<rparr>]\<rparr>)
            (map clear ps)"
  by (cases "the src")
     (simp_all add: Let_def clear_def add_styled_run_def set_run_style_def new_run_def)

lemma insert_image_embeds:
  "\<not> falsy src \<Longrightarrow> add_picture (the src) = None \<Longrightarrow>
     insert_image_in_cell add_picture (Cell p ps) src w =
       Cell (p\<lparr>alignment := Some CENTER,
               runs := [\<lparr>run_text = [], run_font = None,
                         run_picture = Some \<lparr>pic_source = the src, pic_width_inches = w\<rparr>\<rparr>]\<rparr>)
            (map clear ps)"
  by (cases "the src")
     (simp_all add: Let_def clear_def add_styled_run_def set_run_style_def new_run_def)

declare insert_image_in_cell.simps [simp del]

lemma cleared_paragraphs_text [simp]: "concat (map (paragraph_text \<circ> clear) ps) = []"
  by (induction ps) (simp_all add: paragraph_text_def clear_def)

lemma cleared_paragraphs_runs [simp]: "concat (map (runs \<circ> clear) ps) = []"
  by (induction ps) (simp_all add: clear_def)

text \<open>
  C3. For every cell (first paragraph \<^term>\<open>p\<close>, further paragraphs \<^term>\<open>ps\<close>), width and image
  library: with no source every paragraph of the cell is emptied, the first is centred
  and holds the one run \<^verbatim>\<open>(no image)\<close>, italic at 10 pt, so the text in the cell is
  exactly \<^verbatim>\<open>(no image)\<close>. When \<^verbatim>\<open>add_picture\<close> raises on the source, whatever the
  exception, the inserter still returns a cell: its old content is gone, its text is
  exactly \<^verbatim>\<open>(error inserting image)\<close> (italic at 9 pt, after the empty run that
  \<^verbatim>\<open>p.add_run()\<close> left), and it holds no picture. When \<^verbatim>\<open>add_picture\<close> succeeds the cell
  holds the picture and no text.
\<close>

theorem insert_image_in_cell_placeholder_on_absence_and_failure:
  "insert_image_in_cell add_picture (Cell p ps) None w =
       Cell (p\<lparr>alignment := Some CENTER,
               runs := [\<lparr>run_text = ''(no image)'',
                         run_font = Some \<lparr>font_name = ''Cambria'', font_size = 10,
                                          font_bold = False, font_italic = True\<rparr>,
                         run_picture = None\<rparr>]\<rparr>)
            (map clear ps)
   \<and> cell_text (insert_image_in_cell add_picture (Cell p ps) None w) = ''(no image)''
   \<and> (\<not> falsy src \<and> add_picture (the src) = Some e \<longrightarrow>
        insert_image_in_cell add_picture (Cell p ps) src w =
          Cell (p\<lparr>alignment := Some CENTER,
                  runs := [\<lparr>run_text = [], run_font = None, run_picture = None\<rparr>,
                           \<lparr>run_text = ''(error inserting image)'',
                            run_font = Some \<lparr>font_name = ''Cambria'', font_size = 9,
                                             font_bold = False, font_italic = True\<rparr>,
                            run_picture = None\<rparr>]\<rparr>)
               (map clear ps)
        \<and> cell_text (insert_image_in_cell add_picture (Cell p ps) src w) =
            ''(error inserting image)''
        \<and> cell_pictures (insert_image_in_cell add_picture (Cell p ps) src w) = [])
   \<and> (\<not> falsy src \<and> add_picture (the src) = None \<longrightarrow>
        cell_text (insert_image_in_cell add_picture (Cell p ps) src w) = []
        \<and> cell_pictures (insert_image_in_cell add_picture (Cell p ps) src w) =
            [\<lparr>pic_source = the src, pic_width_inches = w\<rparr>])"
proof (intro conjI impI)
  have f: "falsy None" by simp
  show "insert_image_in_cell add_picture (Cell p ps) None w =
       Cell (p\<lparr>alignment := Some CENTER,
               runs := [\<lparr>run_text = ''(no image)'',
                         run_font = Some \<lparr>font_name = ''Cambria'', font_size = 10,
                                          font_bold = False, font_italic = True\<rparr>,
                         run_picture = None\<rparr>]\<rparr>)
            (map clear ps)"
    by (rule insert_image_falsy [OF f])
  show "cell_text (insert_image_in_cell add_picture (Cell p ps) None w) = ''(no image)''"
    unfolding insert_image_falsy [OF f] by (simp add: cell_text_def paragraph_text_def)
next
  assume a: "\<not> falsy src \<and> add_picture (the src) = Some e"
  then have r: "insert_image_in_cell add_picture (Cell p ps) src w =
          Cell (p\<lparr>alignment := Some CENTER,
                  runs := [\<lparr>run_text = [], run_font = None, run_picture = None\<rparr>,
                           \<lparr>run_text = ''(error inserting image)'',
                            run_font = Some \<lparr>font_name = ''Cambria'', font_size = 9,
                                             font_bold = False, font_italic = True\<rparr>,
                            run_picture = None\<rparr>]\<rparr>)
               (map clear ps)"
    by (simp add: insert_image_raises)
  show "insert_image_in_cell add_picture (Cell p ps) src w =
          Cell (p\<lparr>alignment := Some CENTER,
                  runs := [\<lparr>run_text = [], run_font = None, run_picture = None\<rparr>,
                           \<lparr>run_text = ''(error inserting image)'',
                            run_font = Some \<lparr>font_name = ''Cambria'', font_size = 9,
                                             font_bold = False, font_italic = True\<rparr>,
                            run_picture = None\<rparr>]\<rparr>)
               (map clear ps)"
    by (rule r)
  show "cell_text (insert_image_in_cell add_picture (Cell p ps) src w) =
            ''(error inserting image)''"
    unfolding r by (simp add: cell_text_def paragraph_text_def)
  show "cell_pictures (insert_image_in_cell add_picture (Cell p ps) src w) = []"
    unfolding r by (simp add: cell_pictures_def List.map_filter_def)
next
  assume a: "\<not> falsy src \<and> add_picture (the src) = None"
  then have r: "insert_image_in_cell add_picture (Cell p ps) src w =
       Cell (p\<lparr>alignment := Some CENTER,
               runs := [\<lparr>run_text = [], run_font = None,
                         run_picture = Some \<lparr>pic_source = the src, pic_width_inches = w\<rparr>\<rparr>]\<rparr>)
            (map clear ps)"
    by (simp add: insert_image_embeds)
  show "cell_text (insert_image_in_cell add_picture (Cell p ps) src w) = []"
    unfolding r by (simp add: cell_text_def paragraph_text_def)
  show "cell_pictures (insert_image_in_cell add_picture (Cell p ps) src w) =
            [\<lparr>pic_source = the src, pic_width_inches = w\<rparr>]"
    unfolding r by (simp add: cell_pictures_def List.map_filter_def)
qed

text \<open>
  The theorem at a cell of two paragraphs that already hold text, with corrupt bytes
  that the image library refuses.
\<close>

theorem insert_image_in_cell_placeholder_on_absence_and_failure_witness:
  "cell_text
     (insert_image_in_cell (\<lambda>src. Some UnrecognizedImageError)
        (Cell \<lparr>alignment = Some LEFT, runs = [new_run ''old'']\<rparr>
              [\<lparr>alignment = None, runs = [new_run ''older'']\<rparr>])
        (Some (Bytes ''not an image'')) 2.8) = ''(error inserting image)''
   \<and> cell_pictures
     (insert_image_in_cell (\<lambda>src. Some UnrecognizedImageError)
        (Cell \<lparr>alignment = Some LEFT, runs = [new_run ''old'']\<rparr>
              [\<lparr>alignment = None, runs = [new_run ''older'']\<rparr>])
        (Some (Bytes ''not an image'')) 2.8) = []"
proof -
  have a: "\<not> falsy (Some (Bytes ''not an image''))
      \<and> (\<lambda>src. Some UnrecognizedImageError) (the (Some (Bytes ''not an image'')))
          = Some UnrecognizedImageError"
    by simp
  from insert_image_in_cell_placeholder_on_absence_and_failure
         [of "\<lambda>src. Some UnrecognizedImageError"
             "\<lparr>alignment = Some LEFT, runs = [new_run ''old'']\<rparr>"
             "[\<lparr>alignment = None, runs = [new_run ''older'']\<rparr>]" "2.8"
             "Some (Bytes ''not an image'')" UnrecognizedImageError,
          THEN conjunct2, THEN conjunct2, THEN conjunct1] a
  have r: "insert_image_in_cell (\<lambda>src. Some UnrecognizedImageError)
        (Cell \<lparr>alignment = Some LEFT, runs = [new_run ''old'']\<rparr>
              [\<lparr>alignment = None, runs = [new_run ''older'']\<rparr>])
        (Some (Bytes ''not an image'')) 2.8 =
          Cell (\<lparr>alignment = Some LEFT, runs = [new_run ''old'']\<rparr>
                 \<lparr>alignment := Some CENTER,
                  runs := [\<lparr>run_text = [], run_font = None, run_picture = None\<rparr>,
                           \<lparr>run_text = ''(error inserting image)'',
                            run_font = Some \<lparr>font_name = ''Cambria'', font_size = 9,
                                             font_bold = False, font_italic = True\<rparr>,
                            run_picture = None\<rparr>]\<rparr>)
               (map clear [\<lparr>alignment = None, runs = [new_run ''older'']\<rparr>])
        \<and> cell_text (insert_image_in_cell (\<lambda>src. Some UnrecognizedImageError)
        (Cell \<lparr>alignment = Some LEFT, runs = [new_run ''old'']\<rparr>
              [\<lparr>alignment = None, runs = [new_run ''older'']\<rparr>])
        (Some (Bytes ''not an image'')) 2.8) =
            ''(error inserting image)''
        \<and> cell_pictures (insert_image_in_cell (\<lambda>src. Some UnrecognizedImageError)
        (Cell \<lparr>alignment = Some LEFT, runs = [new_run ''old'']\<rparr>
              [\<lparr>alignment = None, runs = [new_run ''older'']\<rparr>])
        (Some (Bytes ''not an image'')) 2.8) = []"
    by (rule mp)
  from r [THEN conjunct2] show ?thesis .
qed

text \<open>
  C8. Every falsy source counts as absent: empty bytes and the empty path give the
  same cell as \<^verbatim>\<open>None\<close>, whatever the image library would do (the result is the same for
  any two libraries, so none is consulted), with the text \<^verbatim>\<open>(no image)\<close> and not the
  error caption. So does the photo of an upload whose \<^verbatim>\<open>read\<close> gives zero bytes.
\<close>

theorem insert_image_in_cell_falsy_is_absent:
  "insert_image_in_cell add_picture c (Some (Bytes [])) w =
     insert_image_in_cell add_picture' c None w
   \<and> insert_image_in_cell add_picture c (Some (Path [])) w =
     insert_image_in_cell add_picture' c None w
   \<and> cell_text (insert_image_in_cell add_picture c (Some (Bytes [])) w) = ''(no image)''
   \<and> cell_text (insert_image_in_cell add_picture c (Some (Path [])) w) = ''(no image)''
   \<and> (k \<in> set photo_fields \<and> uploads req k = Some (UploadFile (Some [])) \<longrightarrow>
        collect_images req k = Some (Bytes [])
        \<and> insert_image_in_cell add_picture c (collect_images req k) w =
            insert_image_in_cell add_picture' c None w)"
proof -
  obtain p ps where c: "c = Cell p ps"
    by (cases c)
  have f: "falsy (Some (Bytes []))" "falsy (Some (Path []))" "falsy None"
    by simp_all
  show ?thesis
    unfolding c
    by (simp add: insert_image_falsy [OF f(1)] insert_image_falsy [OF f(2)]
          insert_image_falsy [OF f(3)] cell_text_def paragraph_text_def collect_images_def)
qed

text \<open>
  The theorem at a fresh cell, with a library that refuses every source on one side
  and one that accepts every source on the other, and at a zero-byte upload.
\<close>

theorem insert_image_in_cell_falsy_is_absent_witness:
  "insert_image_in_cell (\<lambda>src. Some OtherException) new_cell (Some (Bytes [])) 2.8 =
     insert_image_in_cell (\<lambda>src. None) new_cell None 2.8
   \<and> cell_text (insert_image_in_cell (\<lambda>src. Some OtherException) new_cell (Some (Bytes [])) 2.8)
       = ''(no image)''
   \<and> insert_image_in_cell (\<lambda>src. Some OtherException) new_cell
       (collect_images
          \<lparr>text_fields = Map.empty, uploads = [''foto_tmat_1'' \<mapsto> UploadFile (Some [])]\<rparr>
          ''foto_tmat_1'') 2.8 =
     insert_image_in_cell (\<lambda>src. None) new_cell None 2.8"
proof -
  let ?req = "\<lparr>text_fields = Map.empty, uploads = [''foto_tmat_1'' \<mapsto> UploadFile (Some [])]\<rparr>"
  note t = insert_image_in_cell_falsy_is_absent
      [of "\<lambda>src. Some OtherException" new_cell "2.8" "\<lambda>src. None" "''foto_tmat_1''" ?req]
  have a: "''foto_tmat_1'' \<in> set photo_fields
      \<and> uploads ?req ''foto_tmat_1'' = Some (UploadFile (Some []))"
    by (simp add: photo_fields_def)
  from t [THEN conjunct2, THEN conjunct2, THEN conjunct2, THEN conjunct2] a
  have "collect_images ?req ''foto_tmat_1'' = Some (Bytes [])
        \<and> insert_image_in_cell (\<lambda>src. Some OtherException) new_cell
            (collect_images ?req ''foto_tmat_1'') 2.8 =
            insert_image_in_cell (\<lambda>src. None) new_cell None 2.8"
    by (rule mp)
  then have 3: "insert_image_in_cell (\<lambda>src. Some OtherException) new_cell
            (collect_images ?req ''foto_tmat_1'') 2.8 =
            insert_image_in_cell (\<lambda>src. None) new_cell None 2.8"
    by (rule conjunct2)
  from t [THEN conjunct1] t [THEN conjunct2, THEN conjunct2, THEN conjunct1] 3
  show ?thesis
    by (intro conjI)
qed

section \<open>Properties of the request handlers\<close>

lemma length_hex_digits [simp]: "length (hex_digits k n) = k"
  by (induction k arbitrary: n) simp_all

lemma hexdigit_in_digits: "hexdigit n \<in> set ''0123456789abcdef''"
proof -
  have "n mod 16 < length ''0123456789abcdef''"
    by simp
  then show ?thesis
    unfolding hexdigit_def by (rule nth_mem)
qed

lemma set_hex_digits: "set (hex_digits k n) \<subseteq> set ''0123456789abcdef''"
proof (induction k arbitrary: n)
  case 0
  show ?case by simp
next
  case (Suc k)
  from Suc [of "n div 16"] hexdigit_in_digits [of n] show ?case
    by simp
qed

lemma generate_full_section_invalid:
  assumes "validate_numeric_fields (text_fields req) numeric_rules \<noteq> []"
  shows "generate_full_section add_picture e req w =
        (JSONResponse 422 (validate_numeric_fields (text_fields req) numeric_rules), w)"
  using assms unfolding generate_full_section_def Let_def
  by (simp only: not_False_eq_True if_True)

text \<open>
  C2. When at least one numeric rule fails on a submission, \<^verbatim>\<open>generate_full_section\<close>
  returns the \<^verbatim>\<open>JSONResponse\<close> with status 422 whose \<^verbatim>\<open>detail\<close> is the validator's
  list (one \<^verbatim>\<open>{field, msg}\<close> record for each failing rule, so not empty), and it
  leaves the world as it was: no \<^verbatim>\<open>Document()\<close> is constructed, no temporary file is
  written and no clean-up is scheduled. A non-integer \<^verbatim>\<open>banjir_lama_hari\<close> such as
  \<^verbatim>\<open>abc\<close> is such a submission, and its field is in the detail list.
\<close>

theorem generate_full_section_rejects_invalid_numbers:
  "((\<exists>rule \<in> set numeric_rules. rule_fails (text_fields req) rule) \<longrightarrow>
      generate_full_section add_picture e req w =
        (JSONResponse 422 (validate_numeric_fields (text_fields req) numeric_rules), w)
      \<and> http_status (fst (generate_full_section add_picture e req w)) = 422
      \<and> validate_numeric_fields (text_fields req) numeric_rules =
          map (rule_error (text_fields req)) (filter (rule_fails (text_fields req)) numeric_rules)
      \<and> validate_numeric_fields (text_fields req) numeric_rules \<noteq> []
      \<and> documents (snd (generate_full_section add_picture e req w)) = documents w
      \<and> tmp_files (snd (generate_full_section add_picture e req w)) = tmp_files w
      \<and> cleanup_tasks (snd (generate_full_section add_picture e req w)) = cleanup_tasks w)
   \<and> (text_fields req ''banjir_lama_hari'' = Some ''abc'' \<longrightarrow>
      http_status (fst (generate_full_section add_picture e req w)) = 422
      \<and> (\<exists>errors. fst (generate_full_section add_picture e req w) = JSONResponse 422 errors
            \<and> ''banjir_lama_hari'' \<in> field ` set errors))"
proof (intro conjI impI)
  assume a: "\<exists>rule \<in> set numeric_rules. rule_fails (text_fields req) rule"
  then show ne: "validate_numeric_fields (text_fields req) numeric_rules \<noteq> []"
    by (simp add: validate_numeric_fields_eq filter_empty_conv)
  then show r: "generate_full_section add_picture e req w =
        (JSONResponse 422 (validate_numeric_fields (text_fields req) numeric_rules), w)"
    by (rule generate_full_section_invalid)
  show "http_status (fst (generate_full_section add_picture e req w)) = 422"
    unfolding r by simp
  show "validate_numeric_fields (text_fields req) numeric_rules =
          map (rule_error (text_fields req)) (filter (rule_fails (text_fields req)) numeric_rules)"
    by (rule validate_numeric_fields_eq)
  show "documents (snd (generate_full_section add_picture e req w)) = documents w"
    unfolding r by simp
  show "tmp_files (snd (generate_full_section add_picture e req w)) = tmp_files w"
    unfolding r by simp
  show "cleanup_tasks (snd (generate_full_section add_picture e req w)) = cleanup_tasks w"
    unfolding r by simp
next
  assume a: "text_fields req ''banjir_lama_hari'' = Some ''abc''"
  have m: "(''banjir_lama_hari'', True) \<in> set numeric_rules"
    by (simp add: numeric_rules_def)
  have s: "strip ''abc'' = ''abc''"
    by (simp add: strip_def isspace_def)
  have "py_int ''abc'' = Inl ValueError"
    by (simp add: py_int_def s drop_sign_def isdigit_def)
  with a s have f: "rule_fails (text_fields req) (''banjir_lama_hari'', True)"
    by (simp add: rule_fails_def blank_def parses_def)
  with m have i: "''banjir_lama_hari''
      \<in> field ` set (validate_numeric_fields (text_fields req) numeric_rules)"
    unfolding validate_numeric_fields_eq by force
  then have ne: "validate_numeric_fields (text_fields req) numeric_rules \<noteq> []"
    by auto
  then have r: "generate_full_section add_picture e req w =
        (JSONResponse 422 (validate_numeric_fields (text_fields req) numeric_rules), w)"
    by (rule generate_full_section_invalid)
  show "http_status (fst (generate_full_section add_picture e req w)) = 422"
    unfolding r by simp
  from i show "\<exists>errors. fst (generate_full_section add_picture e req w) = JSONResponse 422 errors
            \<and> ''banjir_lama_hari'' \<in> field ` set errors"
    unfolding r by simp
qed

text \<open>
  The theorem at the submission that holds only \<^verbatim>\<open>banjir_lama_hari = abc\<close>, in a world
  that already has a document, a temporary file and a clean-up task.
\<close>

theorem generate_full_section_rejects_invalid_numbers_witness:
  "generate_full_section (\<lambda>src. None) \<lparr>tmpf_name = ''/tmp/tmp1.docx'', uuid4 = 7, document_error = None,
          tmpfile_error = None, save_error = None\<rparr>
     \<lparr>text_fields = [''banjir_lama_hari'' \<mapsto> ''abc''], uploads = Map.empty\<rparr>
     \<lparr>documents = 1, tmp_files = [(''/tmp/tmp0.docx'', Some [])], cleanup_tasks = [''/tmp/tmp0.docx'']\<rparr>
   = (JSONResponse 422
        (validate_numeric_fields [''banjir_lama_hari'' \<mapsto> ''abc''] numeric_rules),
      \<lparr>documents = 1, tmp_files = [(''/tmp/tmp0.docx'', Some [])],
       cleanup_tasks = [''/tmp/tmp0.docx'']\<rparr>)
   \<and> http_status (fst (generate_full_section (\<lambda>src. None)
        \<lparr>tmpf_name = ''/tmp/tmp1.docx'', uuid4 = 7, document_error = None,
          tmpfile_error = None, save_error = None\<rparr>
        \<lparr>text_fields = [''banjir_lama_hari'' \<mapsto> ''abc''], uploads = Map.empty\<rparr>
        \<lparr>documents = 1, tmp_files = [(''/tmp/tmp0.docx'', Some [])],
         cleanup_tasks = [''/tmp/tmp0.docx'']\<rparr>)) = 422"
proof -
  let ?req = "\<lparr>text_fields = [''banjir_lama_hari'' \<mapsto> ''abc''], uploads = Map.empty\<rparr>"
  let ?w = "\<lparr>documents = 1, tmp_files = [(''/tmp/tmp0.docx'', Some [])],
             cleanup_tasks = [''/tmp/tmp0.docx'']\<rparr>"
  let ?e = "\<lparr>tmpf_name = ''/tmp/tmp1.docx'', uuid4 = 7, document_error = None,
          tmpfile_error = None, save_error = None\<rparr>"
  have s: "strip ''abc'' = ''abc''"
    by (simp add: strip_def isspace_def)
  have "py_int ''abc'' = Inl ValueError"
    by (simp add: py_int_def s drop_sign_def isdigit_def)
  then have f: "rule_fails (text_fields ?req) (''banjir_lama_hari'', True)"
    by (simp add: rule_fails_def blank_def parses_def s)
  have a: "\<exists>rule \<in> set numeric_rules. rule_fails (text_fields ?req) rule"
  proof (rule rev_bexI)
    show "(''banjir_lama_hari'', True) \<in> set numeric_rules"
      by (simp add: numeric_rules_def)
    show "rule_fails (text_fields ?req) (''banjir_lama_hari'', True)"
      by (rule f)
  qed
  from generate_full_section_rejects_invalid_numbers
         [of ?req "\<lambda>src. None" ?e ?w, THEN conjunct1] a
  have r: "generate_full_section (\<lambda>src. None) ?e ?req ?w =
        (JSONResponse 422 (validate_numeric_fields (text_fields ?req) numeric_rules), ?w)
      \<and> http_status (fst (generate_full_section (\<lambda>src. None) ?e ?req ?w)) = 422
      \<and> validate_numeric_fields (text_fields ?req) numeric_rules =
          map (rule_error (text_fields ?req)) (filter (rule_fails (text_fields ?req)) numeric_rules)
      \<and> validate_numeric_fields (text_fields ?req) numeric_rules \<noteq> []
      \<and> documents (snd (generate_full_section (\<lambda>src. None) ?e ?req ?w)) = documents ?w
      \<and> tmp_files (snd (generate_full_section (\<lambda>src. None) ?e ?req ?w)) = tmp_files ?w
      \<and> cleanup_tasks (snd (generate_full_section (\<lambda>src. None) ?e ?req ?w)) = cleanup_tasks ?w"
    by (rule mp)
  have t: "text_fields ?req = [''banjir_lama_hari'' \<mapsto> ''abc'']"
    by simp
  from r [THEN conjunct1] r [THEN conjunct2, THEN conjunct1] show ?thesis
    unfolding t by (rule conjI)
qed

lemma add_foto_lapangan_section_appends:
  "add_foto_lapangan_section add_picture doc imgs x =
     doc @ add_foto_lapangan_section add_picture [] imgs x"
  by (simp add: add_foto_lapangan_section_def Let_def)

lemma add_additional_photo_sections_appends:
  "add_additional_photo_sections add_picture doc imgs x =
     doc @ add_additional_photo_sections add_picture [] imgs x"
  by (simp add: add_additional_photo_sections_def Let_def)

lemma sample_photo_cell:
  "insert_image_in_cell add_picture new_cell None x =
     Cell \<lparr>alignment = Some CENTER,
           runs = [\<lparr>run_text = ''(no image)'',
                    run_font = Some \<lparr>font_name = ''Cambria'', font_size = 10,
                                     font_bold = False, font_italic = True\<rparr>,
                    run_picture = None\<rparr>]\<rparr> []"
  by (simp add: new_cell_def new_paragraph_def insert_image_falsy)

lemma sample_sections:
  "add_sections sample_values None [] =
     [Section ''add_formulir_tallysheet''
                [(''nomor'', Some ''1''), (''latitude_derajat'', Some ''1''),
                 (''latitude_menit'', Some ''23''), (''latitude_detik'', Some ''45''),
                 (''latitude_arah'', Some ''LS''), (''longitude_derajat'', Some ''102''),
                 (''longitude_menit'', Some ''10''), (''longitude_detik'', Some ''12''),
                 (''longitude_arah'', Some ''BT'')],
              Section ''add_elevasi_lahan_row''
                [(''nomor'', Some ''2''), (''elevasi_lahan'', Some ''12'')],
              Section ''add_kondisi_air_tanah_row''
                [(''kedalaman_air_tanah'', Some ''45''), (''genangan'', Some ''10''),
                 (''banjir_bulan'', Some ''Januari''), (''banjir_lama_hari'', Some ''5''),
                 (''banjir_ketinggian_air'', Some ''20''), (''sumber_air_hujan'', Some ''on''),
                 (''sumber_air_limpasan_sungai'', Some []),
                 (''sumber_air_kiriman_hulu'', Some ''on''),
                 (''sumber_air_lainnya_checkbox'', Some []),
                 (''sumber_air_lainnya_text'', Some ''drainase tersumbat'')],
              Section ''add_tutupan_lahan_row''
                [(''nomor'', Some ''4''), (''jenis_tanaman'', Some ''Kelapa''),
                 (''status_masyarakat'', Some ''on''), (''status_perusahaan'', Some []),
                 (''nama_perusahaan'', Some []), (''luas_konsesi'', Some [])],
              Section ''add_flora_fauna_row''
                [(''numero'', Some ''5''), (''flora_tidak_ada'', Some []),
                 (''flora_ada'', Some ''on''), (''flora_jenis'', Some ''Rafflesia''),
                 (''fauna_tidak_ada'', Some []), (''fauna_ada'', Some ''on''),
                 (''fauna_jenis'', Some ''Orangutan'')],
              Section ''add_drainase_row''
                [(''nomor'', Some ''6''), (''drainase_alami_tidak_ada'', Some []),
                 (''drainase_alami_ada'', Some ''on''), (''drainase_buatan_tidak_ada'', Some []),
                 (''drainase_buatan_ada'', Some ''on''),
                 (''drainase_buatan_saluran_terbuka'', Some ''on''),
                 (''drainase_buatan_saluran_terkontrol'', Some []),
                 (''tinggi_muka_air_saluran'', Some ''30'')],
              Section ''add_kualitas_air_row''
                [(''nomor'', Some ''7''), (''kualitas_air_tanah_ph'', Some ''4.2''),
                 (''kualitas_air_saluran_ph'', Some ''5.6''),
                 (''kualitas_air_tanah_ec'', Some ''120''),
                 (''kualitas_air_saluran_ec'', Some ''200''),
                 (''kualitas_air_tanah_tds'', Some ''50''),
                 (''kualitas_air_saluran_tds'', Some ''80'')],
              Section ''add_substratum_tanah_liat_row''
                [(''nomor'', Some ''8''), (''substratum_tanah_liat_ph'', Some ''6.6''),
                 (''substratum_tanah_liat_ec'', Some ''300'')],
              Section ''add_tipe_luapan_row''
                [(''nomor'', Some ''9''), (''tipe_luapan_kemarau_a'', Some ''on''),
                 (''tipe_luapan_kemarau_b'', Some []), (''tipe_luapan_kemarau_c'', Some []),
                 (''tipe_luapan_kemarau_d'', Some []), (''tipe_luapan_hujan_a'', Some []),
                 (''tipe_luapan_hujan_b'', Some ''on''), (''tipe_luapan_hujan_c'', Some []),
                 (''tipe_luapan_hujan_d'', Some [])],
              Section ''add_ketebalan_gambut_row''
                [(''nomor'', Some ''10''), (''ketebalan_gambut_cm'', Some ''120''),
                 (''tingkat_perombakan_saprik'', Some ''on''),
                 (''tingkat_perombakan_hemik'', Some []),
                 (''tingkat_perombakan_fibrik'', Some [])],
              Section ''add_substratum_bawah_gambut_row''
                [(''nomor'', Some ''11''), (''substratum_pasir_kwarsa'', Some ''on''),
                 (''substratum_clay_sedimen_sungai'', Some []),
                 (''substratum_sedimen_berpirit'', Some []), (''substratum_granit'', Some []),
                 (''substratum_lainnya_checkbox'', Some []),
                 (''substratum_lainnya_text'', Some [])],
              Section ''add_perkembangan_kerusakan_row''
                [(''nomor'', Some ''12''), (''kerusakan_drainase_buatan'', Some ''on''),
                 (''kerusakan_terekspos_sedimen'', Some []),
                 (''kondisi_tanaman_tidak_normal'', Some ''on''),
                 (''kondisi_tanaman_tidak_produktif'', Some []),
                 (''kondisi_tanaman_miring_tumbang'', Some []),
                 (''kondisi_tanaman_terjadi_subsiden_checkbox'', Some []),
                 (''kondisi_tanaman_subsiden_cm'', Some []), (''kerapatan_tajuk'', Some ''3'')],
              Section ''add_informasi_kebakaran_row''
                [(''nomor'', Some ''13''), (''kebakaran_tahun'', Some ''2023''),
                 (''kebakaran_bulan'', Some ''Agustus''), (''kebakaran_tanggal'', Some ''15''),
                 (''kebakaran_lama_kejadian_bulan'', Some ''1''),
                 (''pemadaman_swadaya_masyarakat'', Some ''on''),
                 (''pemadaman_bantuan_pemerintah'', Some []),
                 (''hujan_tanggal'', Some ''10''), (''hujan_bulan'', Some ''07''),
                 (''hujan_tahun'', Some ''2024''), (''hujan_lama_kejadian_jam'', Some ''6''),
                 (''intensitas_hujan_tinggi'', Some ''on''),
                 (''intensitas_hujan_sedang'', Some []),
                 (''intensitas_hujan_rendah'', Some [])],
              Section ''add_analisis_lab_header'' [],
              Section ''add_porositas_row''
                [(''nomor'', Some ''14''), (''porositas_bobot_isi'', Some ''45'')],
              Section ''add_kelengasan_row''
                [(''nomor'', Some ''15''), (''kelengasan_kadar_air'', Some ''85'')],
              Section ''add_c_organik_row''
                [(''nomor'', Some ''16''), (''c_organik'', Some ''58'')],
              Section ''add_sketsa_lokasi_row'' [(''sketsa_image_bytes'', None)]]"
  by code_simp

lemma generate_sample_success:
  assumes "document_error e = None" and "tmpfile_error e = None" and "save_error e = None"
  shows "generate_sample add_picture e w =
     (FileResponse (tmpf_name e) docx_media_type
        (''tallysheet_sample_'' @ uuid_hex (uuid4 e) @ ''.docx''),
      w\<lparr>documents := documents w + 1,
        tmp_files := tmp_files w @
          [(tmpf_name e, Some
            (add_sections sample_values None []
             @ add_foto_lapangan_section add_picture [] (\<lambda>k. None) default_max_image_width_inches
           @ add_additional_photo_sections add_picture [] (\<lambda>k. None)
               default_max_image_width_inches))],
        cleanup_tasks := cleanup_tasks w @ [tmpf_name e]\<rparr>)"
  using assms unfolding generate_sample_def save_and_respond_def Let_def
  by (simp add:
        add_foto_lapangan_section_appends [of _ "add_sections sample_values None []"]
        add_additional_photo_sections_appends
          [of _ "add_sections sample_values None [] @ add_foto_lapangan_section add_picture []
                   (\<lambda>k. None) default_max_image_width_inches"])

text \<open>
  C7. \<^verbatim>\<open>generate_sample\<close> takes no request and validates nothing. Whenever
  \<^verbatim>\<open>Document()\<close>, the creation of the temporary file and \<^verbatim>\<open>doc.save\<close> succeed, it returns
  the \<^verbatim>\<open>FileResponse\<close> (status 200) for the temporary file, with the word-processing
  media type and the file name \<^verbatim>\<open>tallysheet_sample_\<close>, the 32 lower-case hexadecimal digits
  of the UUID, \<^verbatim>\<open>.docx\<close>; the one document constructed is saved to that file and scheduled
  for clean-up, and it holds the eighteen section blocks with the example values of the
  source, in order, followed by the output of the two photo builders, in which all 31
  image cells read \<^verbatim>\<open>(no image)\<close> and no cell holds a picture. The result does not depend
  on the image library. When one of the three calls raises, the exception leaves the
  handler (status 500): a failed \<^verbatim>\<open>Document()\<close> leaves nothing behind, a failed file
  creation the constructed document, and a failed save also the temporary file, without
  a document in it and without a clean-up task.
\<close>

theorem generate_sample_returns_the_document:
  "(document_error e = None \<and> tmpfile_error e = None \<and> save_error e = None \<longrightarrow>
      generate_sample add_picture e w =
        (FileResponse (tmpf_name e)
           ''application/vnd.openxmlformats-officedocument.wordprocessingml.document''
           (''tallysheet_sample_'' @ uuid_hex (uuid4 e) @ ''.docx''),
         w\<lparr>documents := documents w + 1,
           tmp_files := tmp_files w @
             [(tmpf_name e, Some
               ([Section ''add_formulir_tallysheet''
                   [(''nomor'', Some ''1''), (''latitude_derajat'', Some ''1''),
                    (''latitude_menit'', Some ''23''), (''latitude_detik'', Some ''45''),
                    (''latitude_arah'', Some ''LS''), (''longitude_derajat'', Some ''102''),
                    (''longitude_menit'', Some ''10''), (''longitude_detik'', Some ''12''),
                    (''longitude_arah'', Some ''BT'')],
                 Section ''add_elevasi_lahan_row''
                   [(''nomor'', Some ''2''), (''elevasi_lahan'', Some ''12'')],
                 Section ''add_kondisi_air_tanah_row''
                   [(''kedalaman_air_tanah'', Some ''45''), (''genangan'', Some ''10''),
                    (''banjir_bulan'', Some ''Januari''), (''banjir_lama_hari'', Some ''5''),
                    (''banjir_ketinggian_air'', Some ''20''), (''sumber_air_hujan'', Some ''on''),
                    (''sumber_air_limpasan_sungai'', Some []),
                    (''sumber_air_kiriman_hulu'', Some ''on''),
                    (''sumber_air_lainnya_checkbox'', Some []),
                    (''sumber_air_lainnya_text'', Some ''drainase tersumbat'')],
                 Section ''add_tutupan_lahan_row''
                   [(''nomor'', Some ''4''), (''jenis_tanaman'', Some ''Kelapa''),
                    (''status_masyarakat'', Some ''on''), (''status_perusahaan'', Some []),
                    (''nama_perusahaan'', Some []), (''luas_konsesi'', Some [])],
                 Section ''add_flora_fauna_row''
                   [(''numero'', Some ''5''), (''flora_tidak_ada'', Some []),
                    (''flora_ada'', Some ''on''), (''flora_jenis'', Some ''Rafflesia''),
                    (''fauna_tidak_ada'', Some []), (''fauna_ada'', Some ''on''),
                    (''fauna_jenis'', Some ''Orangutan'')],
                 Section ''add_drainase_row''
                   [(''nomor'', Some ''6''), (''drainase_alami_tidak_ada'', Some []),
                    (''drainase_alami_ada'', Some ''on''), (''drainase_buatan_tidak_ada'', Some []),
                    (''drainase_buatan_ada'', Some ''on''),
                    (''drainase_buatan_saluran_terbuka'', Some ''on''),
                    (''drainase_buatan_saluran_terkontrol'', Some []),
                    (''tinggi_muka_air_saluran'', Some ''30'')],
                 Section ''add_kualitas_air_row''
                   [(''nomor'', Some ''7''), (''kualitas_air_tanah_ph'', Some ''4.2''),
                    (''kualitas_air_saluran_ph'', Some ''5.6''),
                    (''kualitas_air_tanah_ec'', Some ''120''),
                    (''kualitas_air_saluran_ec'', Some ''200''),
                    (''kualitas_air_tanah_tds'', Some ''50''),
                    (''kualitas_air_saluran_tds'', Some ''80'')],
                 Section ''add_substratum_tanah_liat_row''
                   [(''nomor'', Some ''8''), (''substratum_tanah_liat_ph'', Some ''6.6''),
                    (''substratum_tanah_liat_ec'', Some ''300'')],
                 Section ''add_tipe_luapan_row''
                   [(''nomor'', Some ''9''), (''tipe_luapan_kemarau_a'', Some ''on''),
                    (''tipe_luapan_kemarau_b'', Some []), (''tipe_luapan_kemarau_c'', Some []),
                    (''tipe_luapan_kemarau_d'', Some []), (''tipe_luapan_hujan_a'', Some []),
                    (''tipe_luapan_hujan_b'', Some ''on''), (''tipe_luapan_hujan_c'', Some []),
                    (''tipe_luapan_hujan_d'', Some [])],
                 Section ''add_ketebalan_gambut_row''
                   [(''nomor'', Some ''10''), (''ketebalan_gambut_cm'', Some ''120''),
                    (''tingkat_perombakan_saprik'', Some ''on''),
                    (''tingkat_perombakan_hemik'', Some []),
                    (''tingkat_perombakan_fibrik'', Some [])],
                 Section ''add_substratum_bawah_gambut_row''
                   [(''nomor'', Some ''11''), (''substratum_pasir_kwarsa'', Some ''on''),
                    (''substratum_clay_sedimen_sungai'', Some []),
                    (''substratum_sedimen_berpirit'', Some []), (''substratum_granit'', Some []),
                    (''substratum_lainnya_checkbox'', Some []),
                    (''substratum_lainnya_text'', Some [])],
                 Section ''add_perkembangan_kerusakan_row''
                   [(''nomor'', Some ''12''), (''kerusakan_drainase_buatan'', Some ''on''),
                    (''kerusakan_terekspos_sedimen'', Some []),
                    (''kondisi_tanaman_tidak_normal'', Some ''on''),
                    (''kondisi_tanaman_tidak_produktif'', Some []),
                    (''kondisi_tanaman_miring_tumbang'', Some []),
                    (''kondisi_tanaman_terjadi_subsiden_checkbox'', Some []),
                    (''kondisi_tanaman_subsiden_cm'', Some []), (''kerapatan_tajuk'', Some ''3'')],
                 Section ''add_informasi_kebakaran_row''
                   [(''nomor'', Some ''13''), (''kebakaran_tahun'', Some ''2023''),
                    (''kebakaran_bulan'', Some ''Agustus''), (''kebakaran_tanggal'', Some ''15''),
                    (''kebakaran_lama_kejadian_bulan'', Some ''1''),
                    (''pemadaman_swadaya_masyarakat'', Some ''on''),
                    (''pemadaman_bantuan_pemerintah'', Some []),
                    (''hujan_tanggal'', Some ''10''), (''hujan_bulan'', Some ''07''),
                    (''hujan_tahun'', Some ''2024''), (''hujan_lama_kejadian_jam'', Some ''6''),
                    (''intensitas_hujan_tinggi'', Some ''on''),
                    (''intensitas_hujan_sedang'', Some []),
                    (''intensitas_hujan_rendah'', Some [])],
                 Section ''add_analisis_lab_header'' [],
                 Section ''add_porositas_row''
                   [(''nomor'', Some ''14''), (''porositas_bobot_isi'', Some ''45'')],
                 Section ''add_kelengasan_row''
                   [(''nomor'', Some ''15''), (''kelengasan_kadar_air'', Some ''85'')],
                 Section ''add_c_organik_row''
                   [(''nomor'', Some ''16''), (''c_organik'', Some ''58'')],
                 Section ''add_sketsa_lokasi_row'' [(''sketsa_image_bytes'', None)]]
                @ add_foto_lapangan_section add_picture [] (\<lambda>k. None) default_max_image_width_inches
                 @ add_additional_photo_sections add_picture [] (\<lambda>k. None)
                     default_max_image_width_inches))],
           cleanup_tasks := cleanup_tasks w @ [tmpf_name e]\<rparr>)
      \<and> http_status (fst (generate_sample add_picture e w)) = 200)
   \<and> concat (map block_texts
        (add_foto_lapangan_section add_picture [] (\<lambda>k. None) default_max_image_width_inches
           @ add_additional_photo_sections add_picture [] (\<lambda>k. None)
               default_max_image_width_inches)) =
       [''B.'' @ [CHR 0x09] @ ''FOTO  LAPANGAN'',
        ''Seluruh hasil foto yang diambil harus jelas dan tidak membelakangi matahari'',
        ''1.  Air tanah, genangan atau banjir'', ''(no image)'', ''(no image)'',
        ''2.  Tutupan lahan, penggunaan lahan dan kondisinya'', ''(no image)'', ''(no image)'',
        ''3.  Keberadaan flora dan fauna yang dilindungi'', ''(no image)'', ''(no image)'',
        ''4.  Kondisi drainase alami dan drainase buatan'', ''Drainase alami'',
        ''Drainase buatan'', ''(no image)'', ''(no image)'',
        ''5.  Kualitas Air/Kondisi Air Kanal'', ''EC'', ''TDS'', ''pH'',
        ''(no image)'', ''(no image)'', ''(no image)'', [],
        ''6.  Pengukuran Tinggi Muka Air Tanah (TMAT) pada lubang bor titik pengamatan'',
        ''(no image)'', ''(no image)'', [],
        ''7.  Ketebalan gambut'', ''(no image)'', ''(no image)'', [],
        ''8.  Karakteristik substratum dibawah lapisan gambut'', ''EC'', ''pH'',
        ''(no image)'', ''(no image)'', [],
        ''9.  Perkembangan kondisi atau tingkat kerusakan lahan gambut (fungsi lindung/fungsi budidaya)'',
        ''(no image)'', ''(no image)'', [],
        ''10.  Karakteristik tanah dan kedalaman lapisan pirit'', ''(no image)'', ''(no image)'', [],
        ''11.  Porositas dan Kelengasan'', ''(no image)'', ''(no image)'', [],
        ''12.  Foto Tambahan'', ''(no image)'', ''(no image)'', [], ''(no image)'', ''(no image)'', [],
        ''(no image)'', ''(no image)'', [], ''(no image)'', ''(no image)'', []]
   \<and> length (filter (\<lambda>c. cell_text c = ''(no image)'')
        (concat (map block_cells
          (add_foto_lapangan_section add_picture [] (\<lambda>k. None) default_max_image_width_inches
             @ add_additional_photo_sections add_picture [] (\<lambda>k. None)
                 default_max_image_width_inches)))) = 31
   \<and> (\<forall>c \<in> set (concat (map block_cells
          (add_foto_lapangan_section add_picture [] (\<lambda>k. None) default_max_image_width_inches
             @ add_additional_photo_sections add_picture [] (\<lambda>k. None)
                 default_max_image_width_inches))).
        cell_pictures c = [])
   \<and> length (uuid_hex (uuid4 e)) = 32
   \<and> set (uuid_hex (uuid4 e)) \<subseteq> set ''0123456789abcdef''
   \<and> (document_error e = Some x \<longrightarrow>
        generate_sample add_picture e w = (ServerError x, w)
        \<and> http_status (fst (generate_sample add_picture e w)) = 500)
   \<and> (document_error e = None \<and> tmpfile_error e = Some x \<longrightarrow>
        generate_sample add_picture e w = (ServerError x, w\<lparr>documents := documents w + 1\<rparr>)
        \<and> http_status (fst (generate_sample add_picture e w)) = 500)
   \<and> (document_error e = None \<and> tmpfile_error e = None \<and> save_error e = Some x \<longrightarrow>
        generate_sample add_picture e w =
          (ServerError x,
           w\<lparr>documents := documents w + 1,
             tmp_files := tmp_files w @ [(tmpf_name e, None)]\<rparr>)
        \<and> http_status (fst (generate_sample add_picture e w)) = 500)
   \<and> generate_sample add_picture e w = generate_sample add_picture' e w"
proof (intro conjI impI ballI)
  assume ok: "document_error e = None \<and> tmpfile_error e = None \<and> save_error e = None"
  then have g: "generate_sample add_picture e w =
     (FileResponse (tmpf_name e) docx_media_type
        (''tallysheet_sample_'' @ uuid_hex (uuid4 e) @ ''.docx''),
      w\<lparr>documents := documents w + 1,
        tmp_files := tmp_files w @
          [(tmpf_name e, Some
            (add_sections sample_values None []
             @ add_foto_lapangan_section add_picture [] (\<lambda>k. None) default_max_image_width_inches
           @ add_additional_photo_sections add_picture [] (\<lambda>k. None)
               default_max_image_width_inches))],
        cleanup_tasks := cleanup_tasks w @ [tmpf_name e]\<rparr>)"
    by (simp add: generate_sample_success)
  show r: "generate_sample add_picture e w =
        (FileResponse (tmpf_name e)
           ''application/vnd.openxmlformats-officedocument.wordprocessingml.document''
           (''tallysheet_sample_'' @ uuid_hex (uuid4 e) @ ''.docx''),
         w\<lparr>documents := documents w + 1,
           tmp_files := tmp_files w @
             [(tmpf_name e, Some
               ([Section ''add_formulir_tallysheet''
                   [(''nomor'', Some ''1''), (''latitude_derajat'', Some ''1''),
                    (''latitude_menit'', Some ''23''), (''latitude_detik'', Some ''45''),
                    (''latitude_arah'', Some ''LS''), (''longitude_derajat'', Some ''102''),
                    (''longitude_menit'', Some ''10''), (''longitude_detik'', Some ''12''),
                    (''longitude_arah'', Some ''BT'')],
                 Section ''add_elevasi_lahan_row''
                   [(''nomor'', Some ''2''), (''elevasi_lahan'', Some ''12'')],
                 Section ''add_kondisi_air_tanah_row''
                   [(''kedalaman_air_tanah'', Some ''45''), (''genangan'', Some ''10''),
                    (''banjir_bulan'', Some ''Januari''), (''banjir_lama_hari'', Some ''5''),
                    (''banjir_ketinggian_air'', Some ''20''), (''sumber_air_hujan'', Some ''on''),
                    (''sumber_air_limpasan_sungai'', Some []),
                    (''sumber_air_kiriman_hulu'', Some ''on''),
                    (''sumber_air_lainnya_checkbox'', Some []),
                    (''sumber_air_lainnya_text'', Some ''drainase tersumbat'')],
                 Section ''add_tutupan_lahan_row''
                   [(''nomor'', Some ''4''), (''jenis_tanaman'', Some ''Kelapa''),
                    (''status_masyarakat'', Some ''on''), (''status_perusahaan'', Some []),
                    (''nama_perusahaan'', Some []), (''luas_konsesi'', Some [])],
                 Section ''add_flora_fauna_row''
                   [(''numero'', Some ''5''), (''flora_tidak_ada'', Some []),
                    (''flora_ada'', Some ''on''), (''flora_jenis'', Some ''Rafflesia''),
                    (''fauna_tidak_ada'', Some []), (''fauna_ada'', Some ''on''),
                    (''fauna_jenis'', Some ''Orangutan'')],
                 Section ''add_drainase_row''
                   [(''nomor'', Some ''6''), (''drainase_alami_tidak_ada'', Some []),
                    (''drainase_alami_ada'', Some ''on''), (''drainase_buatan_tidak_ada'', Some []),
                    (''drainase_buatan_ada'', Some ''on''),
                    (''drainase_buatan_saluran_terbuka'', Some ''on''),
                    (''drainase_buatan_saluran_terkontrol'', Some []),
                    (''tinggi_muka_air_saluran'', Some ''30'')],
                 Section ''add_kualitas_air_row''
                   [(''nomor'', Some ''7''), (''kualitas_air_tanah_ph'', Some ''4.2''),
                    (''kualitas_air_saluran_ph'', Some ''5.6''),
                    (''kualitas_air_tanah_ec'', Some ''120''),
                    (''kualitas_air_saluran_ec'', Some ''200''),
                    (''kualitas_air_tanah_tds'', Some ''50''),
                    (''kualitas_air_saluran_tds'', Some ''80'')],
                 Section ''add_substratum_tanah_liat_row''
                   [(''nomor'', Some ''8''), (''substratum_tanah_liat_ph'', Some ''6.6''),
                    (''substratum_tanah_liat_ec'', Some ''300'')],
                 Section ''add_tipe_luapan_row''
                   [(''nomor'', Some ''9''), (''tipe_luapan_kemarau_a'', Some ''on''),
                    (''tipe_luapan_kemarau_b'', Some []), (''tipe_luapan_kemarau_c'', Some []),
                    (''tipe_luapan_kemarau_d'', Some []), (''tipe_luapan_hujan_a'', Some []),
                    (''tipe_luapan_hujan_b'', Some ''on''), (''tipe_luapan_hujan_c'', Some []),
                    (''tipe_luapan_hujan_d'', Some [])],
                 Section ''add_ketebalan_gambut_row''
                   [(''nomor'', Some ''10''), (''ketebalan_gambut_cm'', Some ''120''),
                    (''tingkat_perombakan_saprik'', Some ''on''),
                    (''tingkat_perombakan_hemik'', Some []),
                    (''tingkat_perombakan_fibrik'', Some [])],
                 Section ''add_substratum_bawah_gambut_row''
                   [(''nomor'', Some ''11''), (''substratum_pasir_kwarsa'', Some ''on''),
                    (''substratum_clay_sedimen_sungai'', Some []),
                    (''substratum_sedimen_berpirit'', Some []), (''substratum_granit'', Some []),
                    (''substratum_lainnya_checkbox'', Some []),
                    (''substratum_lainnya_text'', Some [])],
                 Section ''add_perkembangan_kerusakan_row''
                   [(''nomor'', Some ''12''), (''kerusakan_drainase_buatan'', Some ''on''),
                    (''kerusakan_terekspos_sedimen'', Some []),
                    (''kondisi_tanaman_tidak_normal'', Some ''on''),
                    (''kondisi_tanaman_tidak_produktif'', Some []),
                    (''kondisi_tanaman_miring_tumbang'', Some []),
                    (''kondisi_tanaman_terjadi_subsiden_checkbox'', Some []),
                    (''kondisi_tanaman_subsiden_cm'', Some []), (''kerapatan_tajuk'', Some ''3'')],
                 Section ''add_informasi_kebakaran_row''
                   [(''nomor'', Some ''13''), (''kebakaran_tahun'', Some ''2023''),
                    (''kebakaran_bulan'', Some ''Agustus''), (''kebakaran_tanggal'', Some ''15''),
                    (''kebakaran_lama_kejadian_bulan'', Some ''1''),
                    (''pemadaman_swadaya_masyarakat'', Some ''on''),
                    (''pemadaman_bantuan_pemerintah'', Some []),
                    (''hujan_tanggal'', Some ''10''), (''hujan_bulan'', Some ''07''),
                    (''hujan_tahun'', Some ''2024''), (''hujan_lama_kejadian_jam'', Some ''6''),
                    (''intensitas_hujan_tinggi'', Some ''on''),
                    (''intensitas_hujan_sedang'', Some []),
                    (''intensitas_hujan_rendah'', Some [])],
                 Section ''add_analisis_lab_header'' [],
                 Section ''add_porositas_row''
                   [(''nomor'', Some ''14''), (''porositas_bobot_isi'', Some ''45'')],
                 Section ''add_kelengasan_row''
                   [(''nomor'', Some ''15''), (''kelengasan_kadar_air'', Some ''85'')],
                 Section ''add_c_organik_row''
                   [(''nomor'', Some ''16''), (''c_organik'', Some ''58'')],
                 Section ''add_sketsa_lokasi_row'' [(''sketsa_image_bytes'', None)]]
                @ add_foto_lapangan_section add_picture [] (\<lambda>k. None) default_max_image_width_inches
                 @ add_additional_photo_sections add_picture [] (\<lambda>k. None)
                     default_max_image_width_inches))],
           cleanup_tasks := cleanup_tasks w @ [tmpf_name e]\<rparr>)"
    unfolding g sample_sections docx_media_type_def by (rule refl)
  show "http_status (fst (generate_sample add_picture e w)) = 200"
    unfolding g by simp
next
  show "concat (map block_texts
        (add_foto_lapangan_section add_picture [] (\<lambda>k. None) default_max_image_width_inches
           @ add_additional_photo_sections add_picture [] (\<lambda>k. None)
               default_max_image_width_inches)) =
       [''B.'' @ [CHR 0x09] @ ''FOTO  LAPANGAN'',
        ''Seluruh hasil foto yang diambil harus jelas dan tidak membelakangi matahari'',
        ''1.  Air tanah, genangan atau banjir'', ''(no image)'', ''(no image)'',
        ''2.  Tutupan lahan, penggunaan lahan dan kondisinya'', ''(no image)'', ''(no image)'',
        ''3.  Keberadaan flora dan fauna yang dilindungi'', ''(no image)'', ''(no image)'',
        ''4.  Kondisi drainase alami dan drainase buatan'', ''Drainase alami'',
        ''Drainase buatan'', ''(no image)'', ''(no image)'',
        ''5.  Kualitas Air/Kondisi Air Kanal'', ''EC'', ''TDS'', ''pH'',
        ''(no image)'', ''(no image)'', ''(no image)'', [],
        ''6.  Pengukuran Tinggi Muka Air Tanah (TMAT) pada lubang bor titik pengamatan'',
        ''(no image)'', ''(no image)'', [],
        ''7.  Ketebalan gambut'', ''(no image)'', ''(no image)'', [],
        ''8.  Karakteristik substratum dibawah lapisan gambut'', ''EC'', ''pH'',
        ''(no image)'', ''(no image)'', [],
        ''9.  Perkembangan kondisi atau tingkat kerusakan lahan gambut (fungsi lindung/fungsi budidaya)'',
        ''(no image)'', ''(no image)'', [],
        ''10.  Karakteristik tanah dan kedalaman lapisan pirit'', ''(no image)'', ''(no image)'', [],
        ''11.  Porositas dan Kelengasan'', ''(no image)'', ''(no image)'', [],
        ''12.  Foto Tambahan'', ''(no image)'', ''(no image)'', [], ''(no image)'', ''(no image)'', [],
        ''(no image)'', ''(no image)'', [], ''(no image)'', ''(no image)'', []]"
    by (simp add: add_foto_lapangan_section_def add_additional_photo_sections_def Let_def
          image_row_def caption_cell_def caption_par_def tambahan_keys_def sample_photo_cell
          add_styled_run_def set_run_style_def new_run_def new_paragraph_def paragraph_text_def)
next
  show "length (filter (\<lambda>c. cell_text c = ''(no image)'')
        (concat (map block_cells
          (add_foto_lapangan_section add_picture [] (\<lambda>k. None) default_max_image_width_inches
             @ add_additional_photo_sections add_picture [] (\<lambda>k. None)
                 default_max_image_width_inches)))) = 31"
    by (simp add: add_foto_lapangan_section_def add_additional_photo_sections_def Let_def
          image_row_def caption_cell_def caption_par_def tambahan_keys_def sample_photo_cell
          add_styled_run_def set_run_style_def new_run_def new_paragraph_def
          cell_text_def paragraph_text_def)
next
  fix c
  assume "c \<in> set (concat (map block_cells
          (add_foto_lapangan_section add_picture [] (\<lambda>k. None) default_max_image_width_inches
             @ add_additional_photo_sections add_picture [] (\<lambda>k. None)
                 default_max_image_width_inches)))"
  then show "cell_pictures c = []"
    by (auto simp: add_foto_lapangan_section_def add_additional_photo_sections_def Let_def
          image_row_def caption_cell_def caption_par_def tambahan_keys_def sample_photo_cell
          add_styled_run_def set_run_style_def new_run_def new_paragraph_def
          cell_pictures_def List.map_filter_def)
next
  show "length (uuid_hex (uuid4 e)) = 32"
    by (simp add: uuid_hex_def)
  show "set (uuid_hex (uuid4 e)) \<subseteq> set ''0123456789abcdef''"
    unfolding uuid_hex_def by (rule set_hex_digits)
next
  assume a: "document_error e = Some x"
  then show r: "generate_sample add_picture e w = (ServerError x, w)"
    by (simp add: generate_sample_def)
  show "http_status (fst (generate_sample add_picture e w)) = 500"
    unfolding r by simp
next
  assume a: "document_error e = None \<and> tmpfile_error e = Some x"
  then show r: "generate_sample add_picture e w
      = (ServerError x, w\<lparr>documents := documents w + 1\<rparr>)"
    by (simp add: generate_sample_def save_and_respond_def Let_def)
  show "http_status (fst (generate_sample add_picture e w)) = 500"
    unfolding r by simp
next
  assume a: "document_error e = None \<and> tmpfile_error e = None \<and> save_error e = Some x"
  then show r: "generate_sample add_picture e w =
          (ServerError x,
           w\<lparr>documents := documents w + 1,
             tmp_files := tmp_files w @ [(tmpf_name e, None)]\<rparr>)"
    by (simp add: generate_sample_def save_and_respond_def Let_def)
  show "http_status (fst (generate_sample add_picture e w)) = 500"
    unfolding r by simp
next
  have none: "insert_image_in_cell add_picture new_cell None x
      = insert_image_in_cell add_picture' new_cell None x" for x
    by (simp add: sample_photo_cell)
  have row: "image_row add_picture (\<lambda>_. None) x = image_row add_picture' (\<lambda>_. None) x" for x
    by (rule ext) (simp add: image_row_def none)
  have blocks: "tambahan_blocks add_picture (\<lambda>_. None) x
      = tambahan_blocks add_picture' (\<lambda>_. None) x" for x
  proof (rule ext)
    fix pair
    show "tambahan_blocks add_picture (\<lambda>_. None) x pair
      = tambahan_blocks add_picture' (\<lambda>_. None) x pair"
      by (cases pair) (simp_all add: Let_def none split: list.splits)
  qed
  have 1: "add_foto_lapangan_section add_picture doc (\<lambda>_. None) x
      = add_foto_lapangan_section add_picture' doc (\<lambda>_. None) x" for doc x
    by (simp only: add_foto_lapangan_section_def row)
  have 2: "add_additional_photo_sections add_picture doc (\<lambda>_. None) x
      = add_additional_photo_sections add_picture' doc (\<lambda>_. None) x" for doc x
    by (simp only: add_additional_photo_sections_def row blocks)
  show "generate_sample add_picture e w = generate_sample add_picture' e w"
    by (simp only: generate_sample_def 1 2)
qed

theorem generate_sample_returns_the_document_witness:
  "fst (generate_sample (\<lambda>src. Some OtherException)
         \<lparr>tmpf_name = ''/tmp/tmpab12.docx'', uuid4 = 255, document_error = None,
            tmpfile_error = None, save_error = None\<rparr>
         \<lparr>documents = 0, tmp_files = [], cleanup_tasks = []\<rparr>) =
     FileResponse ''/tmp/tmpab12.docx''
       ''application/vnd.openxmlformats-officedocument.wordprocessingml.document''
       ''tallysheet_sample_000000000000000000000000000000ff.docx''
   \<and> http_status (fst (generate_sample (\<lambda>src. Some OtherException)
         \<lparr>tmpf_name = ''/tmp/tmpab12.docx'', uuid4 = 255, document_error = None,
            tmpfile_error = None, save_error = None\<rparr>
         \<lparr>documents = 0, tmp_files = [], cleanup_tasks = []\<rparr>)) = 200
   \<and> cleanup_tasks (snd (generate_sample (\<lambda>src. Some OtherException)
         \<lparr>tmpf_name = ''/tmp/tmpab12.docx'', uuid4 = 255, document_error = None,
            tmpfile_error = None, save_error = None\<rparr>
         \<lparr>documents = 0, tmp_files = [], cleanup_tasks = []\<rparr>)) = [''/tmp/tmpab12.docx'']
   \<and> generate_sample (\<lambda>src. Some OtherException)
         \<lparr>tmpf_name = ''/tmp/tmpab12.docx'', uuid4 = 255, document_error = Some OSError,
            tmpfile_error = None, save_error = None\<rparr>
         \<lparr>documents = 0, tmp_files = [], cleanup_tasks = []\<rparr> =
       (ServerError OSError, \<lparr>documents = 0, tmp_files = [], cleanup_tasks = []\<rparr>)
   \<and> generate_sample (\<lambda>src. Some OtherException)
         \<lparr>tmpf_name = ''/tmp/tmpab12.docx'', uuid4 = 255, document_error = None,
            tmpfile_error = Some OSError, save_error = None\<rparr>
         \<lparr>documents = 0, tmp_files = [], cleanup_tasks = []\<rparr> =
       (ServerError OSError, \<lparr>documents = 1, tmp_files = [], cleanup_tasks = []\<rparr>)
   \<and> generate_sample (\<lambda>src. Some OtherException)
         \<lparr>tmpf_name = ''/tmp/tmpab12.docx'', uuid4 = 255, document_error = None,
            tmpfile_error = None, save_error = Some OSError\<rparr>
         \<lparr>documents = 0, tmp_files = [], cleanup_tasks = []\<rparr> =
       (ServerError OSError,
        \<lparr>documents = 1, tmp_files = [(''/tmp/tmpab12.docx'', None)], cleanup_tasks = []\<rparr>)"
proof -
  have h: "uuid_hex 255 = ''000000000000000000000000000000ff''"
    by code_simp
  have ok: "document_error \<lparr>tmpf_name = ''/tmp/tmpab12.docx'', uuid4 = 255,
                document_error = None, tmpfile_error = None, save_error = None\<rparr> = None
      \<and> tmpfile_error \<lparr>tmpf_name = ''/tmp/tmpab12.docx'', uuid4 = 255,
                document_error = None, tmpfile_error = None, save_error = None\<rparr> = None
      \<and> save_error \<lparr>tmpf_name = ''/tmp/tmpab12.docx'', uuid4 = 255,
                document_error = None, tmpfile_error = None, save_error = None\<rparr> = None"
    by simp
  have d: "document_error \<lparr>tmpf_name = ''/tmp/tmpab12.docx'', uuid4 = 255,
                document_error = Some OSError, tmpfile_error = None, save_error = None\<rparr>
            = Some OSError"
    by simp
  have t: "document_error \<lparr>tmpf_name = ''/tmp/tmpab12.docx'', uuid4 = 255,
                document_error = None, tmpfile_error = Some OSError, save_error = None\<rparr> = None
      \<and> tmpfile_error \<lparr>tmpf_name = ''/tmp/tmpab12.docx'', uuid4 = 255,
                document_error = None, tmpfile_error = Some OSError, save_error = None\<rparr>
            = Some OSError"
    by simp
  have s: "document_error \<lparr>tmpf_name = ''/tmp/tmpab12.docx'', uuid4 = 255,
                document_error = None, tmpfile_error = None, save_error = Some OSError\<rparr> = None
      \<and> tmpfile_error \<lparr>tmpf_name = ''/tmp/tmpab12.docx'', uuid4 = 255,
                document_error = None, tmpfile_error = None, save_error = Some OSError\<rparr> = None
      \<and> save_error \<lparr>tmpf_name = ''/tmp/tmpab12.docx'', uuid4 = 255,
                document_error = None, tmpfile_error = None, save_error = Some OSError\<rparr>
            = Some OSError"
    by simp
  note success = generate_sample_returns_the_document
      [where add_picture = "\<lambda>src. Some OtherException"
         and w = "\<lparr>documents = 0, tmp_files = [], cleanup_tasks = []\<rparr>",
       THEN conjunct1, THEN mp, OF ok]
  note failures = generate_sample_returns_the_document
      [where add_picture = "\<lambda>src. Some OtherException"
         and w = "\<lparr>documents = 0, tmp_files = [], cleanup_tasks = []\<rparr>",
       THEN conjunct2, THEN conjunct2, THEN conjunct2, THEN conjunct2, THEN conjunct2,
       THEN conjunct2]
  from success [THEN conjunct1]
  have 1: "fst (generate_sample (\<lambda>src. Some OtherException)
         \<lparr>tmpf_name = ''/tmp/tmpab12.docx'', uuid4 = 255, document_error = None,
            tmpfile_error = None, save_error = None\<rparr>
         \<lparr>documents = 0, tmp_files = [], cleanup_tasks = []\<rparr>) =
     FileResponse ''/tmp/tmpab12.docx''
       ''application/vnd.openxmlformats-officedocument.wordprocessingml.document''
       ''tallysheet_sample_000000000000000000000000000000ff.docx''"
    by (simp add: h)
  from success [THEN conjunct1]
  have 3: "cleanup_tasks (snd (generate_sample (\<lambda>src. Some OtherException)
         \<lparr>tmpf_name = ''/tmp/tmpab12.docx'', uuid4 = 255, document_error = None,
            tmpfile_error = None, save_error = None\<rparr>
         \<lparr>documents = 0, tmp_files = [], cleanup_tasks = []\<rparr>)) = [''/tmp/tmpab12.docx'']"
    by simp
  from failures [THEN conjunct1, THEN mp, OF d, THEN conjunct1]
  have 4: "generate_sample (\<lambda>src. Some OtherException)
         \<lparr>tmpf_name = ''/tmp/tmpab12.docx'', uuid4 = 255, document_error = Some OSError,
            tmpfile_error = None, save_error = None\<rparr>
         \<lparr>documents = 0, tmp_files = [], cleanup_tasks = []\<rparr> =
       (ServerError OSError, \<lparr>documents = 0, tmp_files = [], cleanup_tasks = []\<rparr>)" .
  from failures [THEN conjunct2, THEN conjunct1, THEN mp, OF t, THEN conjunct1]
  have 5: "generate_sample (\<lambda>src. Some OtherException)
         \<lparr>tmpf_name = ''/tmp/tmpab12.docx'', uuid4 = 255, document_error = None,
            tmpfile_error = Some OSError, save_error = None\<rparr>
         \<lparr>documents = 0, tmp_files = [], cleanup_tasks = []\<rparr> =
       (ServerError OSError, \<lparr>documents = 1, tmp_files = [], cleanup_tasks = []\<rparr>)"
    by simp
  from failures [THEN conjunct2, THEN conjunct2, THEN conjunct1, THEN mp, OF s, THEN conjunct1]
  have 6: "generate_sample (\<lambda>src. Some OtherException)
         \<lparr>tmpf_name = ''/tmp/tmpab12.docx'', uuid4 = 255, document_error = None,
            tmpfile_error = None, save_error = Some OSError\<rparr>
         \<lparr>documents = 0, tmp_files = [], cleanup_tasks = []\<rparr> =
       (ServerError OSError,
        \<lparr>documents = 1, tmp_files = [(''/tmp/tmpab12.docx'', None)], cleanup_tasks = []\<rparr>)"
    by simp
  from 1 success [THEN conjunct2] 3 4 5 6 show ?thesis
    by (intro conjI)
qed

text \<open>
  The sample endpoint does not always answer with status 200: when \<^verbatim>\<open>doc.save\<close> raises,
  the exception leaves the handler and the answer is a server error.
\<close>

theorem generate_sample_fails_when_save_raises:
  "http_status (fst (generate_sample Map.empty
      \<lparr>tmpf_name = ''/tmp/tmpab12.docx'', uuid4 = 255, document_error = None,
         tmpfile_error = None, save_error = Some OSError\<rparr>
      \<lparr>documents = 0, tmp_files = [], cleanup_tasks = []\<rparr>)) = 500
   \<and> http_status (fst (generate_sample Map.empty
      \<lparr>tmpf_name = ''/tmp/tmpab12.docx'', uuid4 = 255, document_error = None,
         tmpfile_error = None, save_error = Some OSError\<rparr>
      \<lparr>documents = 0, tmp_files = [], cleanup_tasks = []\<rparr>)) \<noteq> 200"
  by (simp add: generate_sample_def save_and_respond_def Let_def)

end
